theory Spec2Isabelle
  imports Complex_Main "HOL-Library.Word"
begin

section \<open>The experiment harness \<open>main\<close> of the BCPNN/STDP example simulation\<close>

text \<open>
  The program is one function, \<open>main\<close>: it parses the command line, validates the
  fan-in, builds the two populations and up to three connections, wires monitors, runs
  the kernel and reduces the per-rank synapse counts to rank 0. The model follows the
  source statement by statement. The local variables of \<open>main\<close> are a record, every
  call into the simulation library is an event appended to a trace, and every way the
  program can end (\<open>return\<close>, \<open>exit\<close>, \<open>auryn_abort\<close>) is an outcome.
\<close>

subsection \<open>Numbers\<close>

text \<open>
  \<open>int\<close> and \<open>unsigned int\<close> are 32-bit words (\<open>sint\<close> and \<open>unat\<close> read them).
  The types \<open>NeuronID\<close>, \<open>AurynFloat\<close> and \<open>AurynWeight\<close> are declared in the library's
  headers, which are not among the sources: \<open>NeuronID\<close> is taken to be \<open>unsigned int\<close>,
  as the library declares it, and \<open>AurynFloat\<close> and \<open>AurynWeight\<close> to be the \<open>float\<close>
  that the cast in \<open>(float)npostsyn/nbinputs\<close> names.

  Floating-point values are the real numbers they denote. The two roundings, to
  \<open>float\<close> and to \<open>double\<close>, are parameters of the model (\<open>fl\<close> and \<open>db\<close>):
  every conversion and arithmetic operation of the source applies the rounding of its
  type, and so does every literal that binary floating point does not represent exactly
  (\<open>0.02\<close>, \<open>1e-3\<close>, \<open>1.20\<close>); the literals it represents exactly (\<open>0.0\<close>, \<open>1.0\<close>,
  \<open>0.5\<close>, \<open>10.\<close>, \<open>20\<close>, \<open>100\<close>) stand for themselves. A division by zero yields
  an infinity or a NaN, which is \<open>NotFin\<close>.
\<close>

type_synonym int32 = "32 word"
type_synonym uint32 = "32 word"
type_synonym NeuronID = "32 word"

datatype fpnum = Fin real | NotFin

record fpu =
  fl :: "real \<Rightarrow> real"
  db :: "real \<Rightarrow> real"

definition fp_div :: "(real \<Rightarrow> real) \<Rightarrow> real \<Rightarrow> real \<Rightarrow> fpnum" where
  "fp_div rnd x y = (if y = 0 then NotFin else Fin (rnd (x / y)))"

text \<open>Arithmetic without rounding error, for evaluating scenarios.\<close>

definition exact :: fpu where
  "exact = \<lparr>fl = (\<lambda>x. x), db = (\<lambda>x. x)\<rparr>"

subsection \<open>The command line as the option parser returns it\<close>

text \<open>
  \<open>boost::program_options\<close> is a collaborator: the model takes what
  \<open>parse_command_line\<close>, \<open>store\<close> and \<open>notify\<close> produce. That is either a
  \<open>variables_map\<close>, in which each declared option is absent or holds a value of its
  declared type, or an exception. The handlers of \<open>main\<close> tell exceptions derived from
  \<open>std::exception\<close> from all others.
\<close>

record variables_map =
  opt_help :: bool
  opt_dir :: "string option"
  opt_simtime :: "real option"
  opt_with_stdp :: "bool option"
  opt_with_bcpnn :: "bool option"
  opt_winit :: "real option"
  opt_kappa :: "real option"
  opt_nbinputs :: "int32 option"
  opt_size :: "int32 option"
  opt_npostsyn :: "int32 option"
  opt_ipre :: "int32 option"
  opt_ipost :: "int32 option"
  opt_seed :: "int32 option"
  opt_nomon :: "bool option"

datatype exn = Std_exception string | Unknown_exception

datatype 'vm parsed = Parsed 'vm | Thrown exn

text \<open>The command line with no option on it.\<close>

definition no_options :: variables_map where
  "no_options = \<lparr>opt_help = False, opt_dir = None, opt_simtime = None,
     opt_with_stdp = None, opt_with_bcpnn = None, opt_winit = None, opt_kappa = None,
     opt_nbinputs = None, opt_size = None, opt_npostsyn = None, opt_ipre = None,
     opt_ipost = None, opt_seed = None, opt_nomon = None\<rparr>"

subsection \<open>The kernel and the other ranks\<close>

text \<open>
  The simulation kernel is a collaborator as well. On each rank it answers
  \<open>sys->run(simtime)\<close> with a boolean and \<open>get_nonzero()\<close> of each connection with a
  count, which \<open>main\<close> stores in an \<open>int\<close>. Every rank runs the same program on the
  same command line, so the ranks are a list of kernels: those below this rank, this
  rank's, and those above. The rank number is the length of the first list, and there
  is always at least one rank.
\<close>

datatype group = Poisson | Prneurons | Poneurons

datatype connection = SpCon | StdpCon | BcpnnCon

record kernel =
  run_ok :: bool
  sp_nonzero :: int32
  stdp_nonzero :: int32
  bcpnn_nonzero :: int32

fun get_nonzero :: "kernel \<Rightarrow> connection \<Rightarrow> int32" where
  "get_nonzero k SpCon = sp_nonzero k"
| "get_nonzero k StdpCon = stdp_nonzero k"
| "get_nonzero k BcpnnCon = bcpnn_nonzero k"

record world =
  lower_ranks :: "kernel list"
  this_rank :: kernel
  higher_ranks :: "kernel list"

definition mpi_rank :: "world \<Rightarrow> nat" where
  "mpi_rank w = length (lower_ranks w)"

definition all_ranks :: "world \<Rightarrow> kernel list" where
  "all_ranks w = lower_ranks w @ [this_rank w] @ higher_ranks w"

text \<open>
  \<open>MPI_Reduce(&send, &recv, 1, MPI_INT, MPI_SUM, 0, comm)\<close>: the root receives the sum
  of what every rank sends, in \<open>int\<close> arithmetic; on every other rank the receive
  buffer is left as it was. The other ranks send their own \<open>get_nonzero()\<close> of the
  same connection.
\<close>

definition contributions :: "world \<Rightarrow> connection \<Rightarrow> int32 \<Rightarrow> int32 list" where
  "contributions w c send =
     map (\<lambda>k. get_nonzero k c) (lower_ranks w) @ [send] @
     map (\<lambda>k. get_nonzero k c) (higher_ranks w)"

definition MPI_Reduce_SUM :: "world \<Rightarrow> connection \<Rightarrow> int32 \<Rightarrow> int32 option \<Rightarrow> int32 option" where
  "MPI_Reduce_SUM w c send recv =
     (if mpi_rank w = 0 then Some (sum_list (contributions w c send)) else recv)"

subsection \<open>Events and outcomes\<close>

datatype message =
    Error_what string
  | Unknown_type
  | Fan_in_error
  | Sparseness_is fpnum
  | Ipre_ipost int32 int32
  | Execution_time
  | Non_plastic_weights int32
  | Stdp_weights int32
  | Bcpnn_weights int32

text \<open>
  One event per call into the library, with the arguments as \<open>main\<close> evaluates them.
  A monitor's file name is the argument of \<open>sys->fn\<close>.
\<close>

datatype event =
    Cerr message
  | Logger_msg string
  | Auryn_init string
  | Set_master_seed uint32
  | Set_logfile_loglevel
  | New_PoissonGroup NeuronID real
  | New_TIFGroup NeuronID
  | New_SparseConnection group group real fpnum
  | New_STDPConnection group group real fpnum real real
  | Set_A connection fpnum
  | Set_B connection real
  | Set_min_weight connection real
  | Set_max_weight connection real
  | New_BcpnnConnection group group real fpnum real real real real real
  | Set_wgain connection real
  | Set_bgain connection real
  | New_PreTraceMonitor group real int32 string
  | New_PostTraceMonitor group string int32 string
  | New_StateMonitor group int32 string string
  | New_PreTraceStateMonitor group real int32 string
  | New_PostTraceStateMonitor group real int32 string
  | New_WeightMonitor connection int32 int32 string real nat
  | New_SpikeMonitor group string
  | MPI_Barrier
  | Run real
  | Get_nonzero connection
  | MPI_Reduce connection int32
  | Auryn_free

text \<open>
  \<open>Undefined_behaviour\<close> is the outcome of reading a pointer or an \<open>int\<close> that was
  declared without an initialiser and never assigned.
\<close>

datatype outcome = Returned int | Exited int | Aborted int | Undefined_behaviour

type_synonym halted = "outcome \<times> event list"

subsection \<open>The local variables of \<open>main\<close>\<close>

text \<open>
  \<open>stdp_con\<close> and \<open>bcpnn_con\<close> are declared without an initialiser, and so are the
  reduced counts: \<open>None\<close> is the indeterminate value. (\<open>sp_con\<close>, \<open>poisson\<close> and
  \<open>poneurons\<close> are initialised where they are declared.) The field \<open>size'\<close> is the
  variable \<open>size\<close>.
\<close>

record locals =
  dir :: string
  simtime :: real
  nbinputs :: NeuronID
  size' :: NeuronID
  seed :: uint32
  kappa :: real
  sparseness :: fpnum
  npostsyn :: real
  winit :: real
  with_stdp :: bool
  with_bcpnn :: bool
  nomon :: bool
  ipre :: int32
  ipost :: int32
  errcode :: int
  stdp_con :: "connection option"
  bcpnn_con :: "connection option"
  gnsyn :: "int32 option"
  stdp_gnsyn :: "int32 option"
  bcpnn_gnsyn :: "int32 option"
  trace :: "event list"

definition tau_pre :: "fpu \<Rightarrow> real" where
  "tau_pre ar = db ar (20 / 1000)"

definition tau_post :: "fpu \<Rightarrow> real" where
  "tau_post ar = db ar (20 / 1000)"

definition eta :: "fpu \<Rightarrow> real" where
  "eta ar = db ar (1 / 1000)"

definition tau_z_pr :: "fpu \<Rightarrow> real" where
  "tau_z_pr ar = db ar (25 / 1000)"

definition tau_z_po :: "fpu \<Rightarrow> real" where
  "tau_z_po ar = db ar (10 / 1000)"

definition tau_p :: "fpu \<Rightarrow> real" where
  "tau_p ar = db ar (2 / 10)"

definition refractory_period :: "fpu \<Rightarrow> real" where
  "refractory_period ar = fl ar (db ar (5 / 1000))"

definition initial :: "fpu \<Rightarrow> locals" where
  "initial ar = \<lparr>dir = ''.'', simtime = 10, nbinputs = 100, size' = 25, seed = 1,
     kappa = 20, sparseness = Fin (1 / 2), npostsyn = 100,
     winit = fl ar (db ar (2 / 100)), with_stdp = False, with_bcpnn = False,
     nomon = False, ipre = 5, ipost = 5, errcode = 0, stdp_con = None, bcpnn_con = None,
     gnsyn = None, stdp_gnsyn = None, bcpnn_gnsyn = None, trace = []\<rparr>"

definition emit :: "event \<Rightarrow> locals \<Rightarrow> locals" where
  "emit e s = s\<lparr>trace := trace s @ [e]\<rparr>"

definition emits :: "event list \<Rightarrow> locals \<Rightarrow> locals" where
  "emits es s = s\<lparr>trace := trace s @ es\<rparr>"

definition halt :: "outcome \<Rightarrow> locals \<Rightarrow> halted + locals" where
  "halt oc s = Inl (oc, trace s)"

fun run_stages :: "(locals \<Rightarrow> halted + locals) list \<Rightarrow> locals \<Rightarrow> halted + locals" where
  "run_stages [] s = Inr s"
| "run_stages (f # fs) s = (case f s of Inl h \<Rightarrow> Inl h | Inr s' \<Rightarrow> run_stages fs s')"

subsection \<open>Option parsing (the \<open>try\<close> block and its handlers)\<close>

text \<open>
  \<open>if (vm.count(name)) variable = vm[name].as<T>()\<close> is \<open>assign\<close>; the assignments
  run in the order of the source. \<open>nbinputs\<close>, \<open>size\<close> and \<open>seed\<close> take an
  \<open>int\<close> into an unsigned variable (the same 32 bits); \<open>npostsyn\<close> takes an \<open>int\<close>
  into a \<open>float\<close>; \<open>winit\<close> takes a \<open>double\<close> into a \<open>float\<close>.
\<close>

definition assign :: "'a option \<Rightarrow> ('a \<Rightarrow> 's \<Rightarrow> 's) \<Rightarrow> 's \<Rightarrow> 's" where
  "assign v f s = (case v of Some x \<Rightarrow> f x s | None \<Rightarrow> s)"

definition assign_options :: "fpu \<Rightarrow> variables_map \<Rightarrow> locals \<Rightarrow> locals" where
  "assign_options ar vm s =
     fold (\<lambda>step. step)
       [assign (opt_kappa vm) (\<lambda>v s. s\<lparr>kappa := v\<rparr>),
        assign (opt_dir vm) (\<lambda>v s. s\<lparr>dir := v\<rparr>),
        assign (opt_simtime vm) (\<lambda>v s. s\<lparr>simtime := v\<rparr>),
        assign (opt_with_stdp vm) (\<lambda>v s. s\<lparr>with_stdp := v\<rparr>),
        assign (opt_with_bcpnn vm) (\<lambda>v s. s\<lparr>with_bcpnn := v\<rparr>),
        assign (opt_winit vm) (\<lambda>v s. s\<lparr>winit := fl ar v\<rparr>),
        assign (opt_nbinputs vm) (\<lambda>v s. s\<lparr>nbinputs := v\<rparr>),
        assign (opt_size vm) (\<lambda>v s. s\<lparr>size' := v\<rparr>),
        assign (opt_npostsyn vm) (\<lambda>v s. s\<lparr>npostsyn := fl ar (real_of_int (sint v))\<rparr>),
        assign (opt_ipre vm) (\<lambda>v s. s\<lparr>ipre := v\<rparr>),
        assign (opt_ipost vm) (\<lambda>v s. s\<lparr>ipost := v\<rparr>),
        assign (opt_seed vm) (\<lambda>v s. s\<lparr>seed := v\<rparr>),
        assign (opt_nomon vm) (\<lambda>v s. s\<lparr>nomon := v\<rparr>)]
       s"

text \<open>
  \<open>--help\<close> returns 1. The handler for \<open>std::exception\<close> prints and returns 1. The
  handler for everything else prints and has no \<open>return\<close>: control leaves the \<open>try\<close>
  statement and goes on with the variables as they are.
\<close>

definition parse_options :: "fpu \<Rightarrow> variables_map parsed \<Rightarrow> locals \<Rightarrow> halted + locals" where
  "parse_options ar p s =
    (case p of
       Parsed vm \<Rightarrow> if opt_help vm then halt (Returned 1) s else Inr (assign_options ar vm s)
     | Thrown (Std_exception what) \<Rightarrow> halt (Returned 1) (emit (Cerr (Error_what what)) s)
     | Thrown Unknown_exception \<Rightarrow> Inr (emit (Cerr Unknown_type) s))"

subsection \<open>The fan-in check\<close>

text \<open>
  \<open>npostsyn > nbinputs\<close> compares a \<open>float\<close> with an \<open>unsigned int\<close>: the right side is
  converted to \<open>float\<close>. \<open>exit(0)\<close> ends the program.
\<close>

definition nbinputs_as_float :: "fpu \<Rightarrow> locals \<Rightarrow> real" where
  "nbinputs_as_float ar s = fl ar (real (unat (nbinputs s)))"

definition check_fan_in :: "fpu \<Rightarrow> locals \<Rightarrow> halted + locals" where
  "check_fan_in ar s =
    (if npostsyn s > nbinputs_as_float ar s
     then halt (Exited 0) (emit (Cerr Fan_in_error) s)
     else Inr s)"

subsection \<open>Initialisation and the derived sparseness\<close>

text \<open>
  \<open>(float)npostsyn/nbinputs\<close>: \<open>npostsyn\<close> is a \<open>float\<close> already, \<open>nbinputs\<close> is
  converted to \<open>float\<close>, and the quotient is rounded to \<open>float\<close>.
\<close>

definition derived_sparseness :: "fpu \<Rightarrow> locals \<Rightarrow> fpnum" where
  "derived_sparseness ar s = fp_div (fl ar) (npostsyn s) (nbinputs_as_float ar s)"

definition init_auryn :: "fpu \<Rightarrow> world \<Rightarrow> locals \<Rightarrow> halted + locals" where
  "init_auryn ar w s =
    (let s1 = emits [Auryn_init (dir s), Set_master_seed (seed s), Set_logfile_loglevel] s;
         s2 = s1\<lparr>sparseness := derived_sparseness ar s1\<rparr>
     in Inr (if mpi_rank w = 0 then emit (Cerr (Sparseness_is (sparseness s2))) s2 else s2))"

subsection \<open>Populations and connections\<close>

definition neurons :: "fpu \<Rightarrow> locals \<Rightarrow> halted + locals" where
  "neurons ar s =
     Inr (emits [New_PoissonGroup (nbinputs s) (kappa s), New_TIFGroup (size' s),
                 New_SparseConnection Poisson Poneurons (winit s) (sparseness s)] s)"

text \<open>
  \<open>-1.20*tau_post/tau_pre*eta\<close> in \<open>double\<close>, from the left: the literal, its product
  with \<open>tau_post\<close>, the quotient by \<open>tau_pre\<close>, the product with \<open>eta\<close>.
\<close>

definition stdp_A :: "fpu \<Rightarrow> fpnum" where
  "stdp_A ar =
    (case fp_div (db ar) (db ar (- db ar (120 / 100) * tau_post ar)) (tau_pre ar) of
       Fin q \<Rightarrow> Fin (db ar (q * eta ar))
     | NotFin \<Rightarrow> NotFin)"

definition plasticity :: "fpu \<Rightarrow> locals \<Rightarrow> halted + locals" where
  "plasticity ar s =
    (let s1 = (if with_stdp s
               then emits [New_STDPConnection Poisson Poneurons (winit s) (sparseness s)
                             (tau_pre ar) (tau_post ar),
                           Set_A StdpCon (stdp_A ar), Set_B StdpCon (eta ar),
                           Set_min_weight StdpCon 0, Set_max_weight StdpCon 1]
                      (s\<lparr>stdp_con := Some StdpCon\<rparr>)
               else s)
     in Inr (if with_bcpnn s1
             then emits [New_BcpnnConnection Poisson Poneurons 0 (sparseness s1)
                           (tau_pre ar) (tau_z_pr ar) (tau_z_po ar) (tau_p ar)
                           (refractory_period ar),
                         Set_wgain BcpnnCon (db ar (1 / 10000)),
                         Set_bgain BcpnnCon (db ar (1 / 10000))]
                    (s1\<lparr>bcpnn_con := Some BcpnnCon\<rparr>)
             else s1))"

subsection \<open>Monitors\<close>

text \<open>
  Modelled from the spec: \<open>auryn_abort\<close> is not among the sources; by the spec it
  terminates immediately with the numeric abort code it is given. Its second argument
  here is the trace up to the call.
\<close>

definition auryn_abort :: "int \<Rightarrow> event list \<Rightarrow> halted + 's" where
  "auryn_abort code tr = Inl (Aborted code, tr)"

definition bcpnn_probes :: "fpu \<Rightarrow> world \<Rightarrow> locals \<Rightarrow> halted + locals" where
  "bcpnn_probes ar w s =
    (let s1 = (if mpi_rank w = 0 then emit (Cerr (Ipre_ipost (ipre s) (ipost s))) s else s);
         s2 = emits [New_PreTraceMonitor Poisson (tau_z_pr ar) (ipre s) ''zi'',
                     New_PostTraceMonitor Poneurons ''tr_z_post'' (ipost s) ''zj'',
                     New_PostTraceMonitor Poneurons ''tr_p_post'' (ipost s) ''pj'',
                     New_StateMonitor Poneurons (ipost s) ''bj_post'' ''bj''] s1
     in (case bcpnn_con s2 of
           None \<Rightarrow> halt Undefined_behaviour s2
         | Some c \<Rightarrow>
             Inr (emits [New_WeightMonitor c (ipre s) (ipost s) ''pi'' (db ar (1 / 100)) 2,
                         New_WeightMonitor c (ipre s) (ipost s) ''pij'' (db ar (1 / 1000)) 1,
                         New_WeightMonitor c (ipre s) (ipost s) ''wij'' (db ar (1 / 100)) 0]
                    s2)))"

definition spike_recorders :: "locals \<Rightarrow> locals" where
  "spike_recorders s =
     emits [New_SpikeMonitor Poisson ''prspikes'', New_SpikeMonitor Poneurons ''pospikes''] s"

text \<open>
  \<open>nbinputs<ipre\<close> and \<open>size<ipost\<close> compare an \<open>unsigned int\<close> with an \<open>int\<close>: the
  \<open>int\<close> is converted to unsigned, so the comparison is the one of the words.
\<close>

definition monitors :: "fpu \<Rightarrow> world \<Rightarrow> locals \<Rightarrow> halted + locals" where
  "monitors ar w s =
    (if \<not> nomon s then
       if nbinputs s < ipre s
       then auryn_abort 4711 (trace s @ [Logger_msg ''ERROR in main: nbinputs<ipre''])
       else if size' s < ipost s
       then auryn_abort 4712 (trace s @ [Logger_msg ''ERROR in main: size<ipost''])
       else (case (if with_bcpnn s then bcpnn_probes ar w s else Inr s) of
               Inl h \<Rightarrow> Inl h
             | Inr s1 \<Rightarrow> Inr (spike_recorders s1))
     else Inr s)"

subsection \<open>Running the kernel\<close>

definition run_simulation :: "world \<Rightarrow> locals \<Rightarrow> halted + locals" where
  "run_simulation w s =
    (let s1 = emits [MPI_Barrier, Run (simtime s)] s
     in Inr (if \<not> run_ok (this_rank w) then s1\<lparr>errcode := 1\<rparr> else s1))"

subsection \<open>Counting the synapses\<close>

text \<open>
  For one connection: \<open>n = con->get_nonzero(); MPI_Reduce(&n, &g, ...)\<close>. The result
  is the new value of the receive buffer \<open>g\<close>.
\<close>

definition count_through :: "world \<Rightarrow> connection \<Rightarrow> int32 option \<Rightarrow> locals \<Rightarrow> int32 option \<times> locals" where
  "count_through w c recv s =
    (let n = get_nonzero (this_rank w) c
     in (MPI_Reduce_SUM w c n recv, emits [Get_nonzero c, MPI_Reduce c n] s))"

definition count_sp :: "world \<Rightarrow> locals \<Rightarrow> halted + locals" where
  "count_sp w s = (case count_through w SpCon (gnsyn s) s of (g, s1) \<Rightarrow> Inr (s1\<lparr>gnsyn := g\<rparr>))"

definition count_stdp :: "world \<Rightarrow> locals \<Rightarrow> halted + locals" where
  "count_stdp w s =
    (if with_stdp s then
       (case stdp_con s of
          None \<Rightarrow> halt Undefined_behaviour s
        | Some c \<Rightarrow>
            (case count_through w c (stdp_gnsyn s) s of (g, s1) \<Rightarrow> Inr (s1\<lparr>stdp_gnsyn := g\<rparr>)))
     else Inr s)"

definition count_bcpnn :: "world \<Rightarrow> locals \<Rightarrow> halted + locals" where
  "count_bcpnn w s =
    (if with_bcpnn s then
       (case bcpnn_con s of
          None \<Rightarrow> halt Undefined_behaviour s
        | Some c \<Rightarrow>
            (case count_through w c (bcpnn_gnsyn s) s of (g, s1) \<Rightarrow> Inr (s1\<lparr>bcpnn_gnsyn := g\<rparr>)))
     else Inr s)"

subsection \<open>The report at rank 0\<close>

definition print_count :: "(int32 \<Rightarrow> message) \<Rightarrow> int32 option \<Rightarrow> locals \<Rightarrow> halted + locals" where
  "print_count msg g s =
    (case g of None \<Rightarrow> halt Undefined_behaviour s | Some v \<Rightarrow> Inr (emit (Cerr (msg v)) s))"

definition report :: "world \<Rightarrow> locals \<Rightarrow> halted + locals" where
  "report w s =
    (if mpi_rank w = 0 then
       run_stages
         [\<lambda>s. Inr (emit (Cerr Execution_time) s),
          \<lambda>s. print_count Non_plastic_weights (gnsyn s) s,
          \<lambda>s. if with_stdp s then print_count Stdp_weights (stdp_gnsyn s) s else Inr s,
          \<lambda>s. if with_bcpnn s then print_count Bcpnn_weights (bcpnn_gnsyn s) s else Inr s]
         s
     else Inr s)"

subsection \<open>Teardown and the whole program\<close>

definition close_auryn :: "locals \<Rightarrow> halted" where
  "close_auryn s = (Returned (errcode s), trace s @ [Logger_msg ''Freeing ...'', Auryn_free])"

text \<open>Everything after the \<open>try\<close> statement, from the variables as parsing left them.\<close>

definition after_parsing :: "fpu \<Rightarrow> world \<Rightarrow> locals \<Rightarrow> halted" where
  "after_parsing ar w s =
    (case run_stages
            [check_fan_in ar, init_auryn ar w, neurons ar, plasticity ar, monitors ar w,
             run_simulation w, count_sp w, count_stdp w, count_bcpnn w, report w] s of
       Inl h \<Rightarrow> h
     | Inr s' \<Rightarrow> close_auryn s')"

definition main :: "fpu \<Rightarrow> world \<Rightarrow> variables_map parsed \<Rightarrow> halted" where
  "main ar w p =
    (case parse_options ar p (initial ar) of
       Inl h \<Rightarrow> h
     | Inr s \<Rightarrow> after_parsing ar w s)"

section \<open>The two-stage variant \<open>sim_bcpnn_1\<close>\<close>

text \<open>
  The second program has the same option parsing and handlers, no fan-in check (the
  sparseness is an option), a relay population between the input and the output, the
  associative rule always, and fixed monitored indices 99 and 17. It is modelled as it
  is built by default, with \<open>UNUSEDMON\<close> undefined. It reports no counts.
\<close>

record variables_map_1 =
  opt1_help :: bool
  opt1_dir :: "string option"
  opt1_simtime :: "real option"
  opt1_sparseness :: "real option"
  opt1_winit :: "real option"
  opt1_winit2 :: "real option"
  opt1_kappa :: "real option"
  opt1_nbinputs :: "int32 option"
  opt1_size :: "int32 option"
  opt1_seed :: "int32 option"
  opt1_nomon :: "bool option"

definition no_options_1 :: variables_map_1 where
  "no_options_1 = \<lparr>opt1_help = False, opt1_dir = None, opt1_simtime = None,
     opt1_sparseness = None, opt1_winit = None, opt1_winit2 = None, opt1_kappa = None,
     opt1_nbinputs = None, opt1_size = None, opt1_seed = None, opt1_nomon = None\<rparr>"

record locals_1 =
  dir_1 :: string
  simtime_1 :: real
  nbinputs_1 :: NeuronID
  size_1 :: NeuronID
  seed_1 :: uint32
  kappa_1 :: real
  sparseness_1 :: real
  winit_1 :: real
  winit2_1 :: real
  nomon_1 :: bool
  errcode_1 :: int
  trace_1 :: "event list"

definition initial_1 :: "fpu \<Rightarrow> locals_1" where
  "initial_1 ar = \<lparr>dir_1 = ''.'', simtime_1 = 10, nbinputs_1 = 100, size_1 = 25, seed_1 = 1,
     kappa_1 = 20, sparseness_1 = fl ar (db ar (6 / 10)), winit_1 = fl ar (db ar (4 / 100)),
     winit2_1 = fl ar (db ar (4 / 100)), nomon_1 = False, errcode_1 = 0, trace_1 = []\<rparr>"

definition assign_options_1 :: "fpu \<Rightarrow> variables_map_1 \<Rightarrow> locals_1 \<Rightarrow> locals_1" where
  "assign_options_1 ar vm s =
     fold (\<lambda>step. step)
       [assign (opt1_kappa vm) (\<lambda>v s. s\<lparr>kappa_1 := v\<rparr>),
        assign (opt1_dir vm) (\<lambda>v s. s\<lparr>dir_1 := v\<rparr>),
        assign (opt1_simtime vm) (\<lambda>v s. s\<lparr>simtime_1 := v\<rparr>),
        assign (opt1_sparseness vm) (\<lambda>v s. s\<lparr>sparseness_1 := fl ar v\<rparr>),
        assign (opt1_winit vm) (\<lambda>v s. s\<lparr>winit_1 := fl ar v\<rparr>),
        assign (opt1_winit2 vm) (\<lambda>v s. s\<lparr>winit2_1 := fl ar v\<rparr>),
        assign (opt1_nbinputs vm) (\<lambda>v s. s\<lparr>nbinputs_1 := v\<rparr>),
        assign (opt1_size vm) (\<lambda>v s. s\<lparr>size_1 := v\<rparr>),
        assign (opt1_seed vm) (\<lambda>v s. s\<lparr>seed_1 := v\<rparr>),
        assign (opt1_nomon vm) (\<lambda>v s. s\<lparr>nomon_1 := v\<rparr>)]
       s"

definition parse_options_1 ::
  "fpu \<Rightarrow> variables_map_1 parsed \<Rightarrow> locals_1 \<Rightarrow> halted + locals_1" where
  "parse_options_1 ar p s =
    (case p of
       Parsed vm \<Rightarrow>
         if opt1_help vm then Inl (Returned 1, trace_1 s)
         else Inr (assign_options_1 ar vm s)
     | Thrown (Std_exception what) \<Rightarrow> Inl (Returned 1, trace_1 s @ [Cerr (Error_what what)])
     | Thrown Unknown_exception \<Rightarrow> Inr (s\<lparr>trace_1 := trace_1 s @ [Cerr Unknown_type]\<rparr>))"

definition build_1 :: "fpu \<Rightarrow> locals_1 \<Rightarrow> locals_1" where
  "build_1 ar s =
     s\<lparr>trace_1 := trace_1 s @
        [Auryn_init (dir_1 s), Set_master_seed (seed_1 s), Set_logfile_loglevel,
         New_PoissonGroup (nbinputs_1 s) (kappa_1 s), New_TIFGroup (nbinputs_1 s),
         New_TIFGroup (size_1 s),
         New_SparseConnection Poisson Prneurons (winit_1 s) (Fin (sparseness_1 s)),
         New_SparseConnection Prneurons Poneurons (winit2_1 s) (Fin (sparseness_1 s)),
         New_BcpnnConnection Prneurons Poneurons 0 (Fin (sparseness_1 s))
           (tau_pre ar) (tau_z_pr ar) (tau_z_po ar) (tau_p ar) (refractory_period ar),
         Set_wgain BcpnnCon (db ar (1 / 10000)), Set_bgain BcpnnCon (db ar (1 / 10000))]\<rparr>"

text \<open>\<open>int ipre = 99, ipost = 17\<close> are local to the monitoring block.\<close>

definition monitors_1 :: "fpu \<Rightarrow> locals_1 \<Rightarrow> halted + locals_1" where
  "monitors_1 ar s =
    (if \<not> nomon_1 s then
       (let ipre = (99 :: int32); ipost = (17 :: int32) in
        if nbinputs_1 s < ipre
        then auryn_abort 4711 (trace_1 s @ [Logger_msg ''ERROR in main: nbinputs<ipre''])
        else if size_1 s < ipost
        then auryn_abort 4712 (trace_1 s @ [Logger_msg ''ERROR in main: size<ipost''])
        else Inr (s\<lparr>trace_1 := trace_1 s @
               [New_PreTraceStateMonitor Prneurons (tau_z_pr ar) ipre ''zi'',
                New_PostTraceStateMonitor Poneurons (tau_z_po ar) ipost ''zj'']\<rparr>))
     else Inr s)"

definition finish_1 :: "world \<Rightarrow> locals_1 \<Rightarrow> halted" where
  "finish_1 w s =
    (Returned (if \<not> run_ok (this_rank w) then 1 else errcode_1 s),
     trace_1 s @ [MPI_Barrier, Run (simtime_1 s)] @
     (if mpi_rank w = 0 then [Cerr Execution_time] else []) @
     [Logger_msg ''Freeing ...'', Auryn_free])"

definition main_1 :: "fpu \<Rightarrow> world \<Rightarrow> variables_map_1 parsed \<Rightarrow> halted" where
  "main_1 ar w p =
    (case parse_options_1 ar p (initial_1 ar) of
       Inl h \<Rightarrow> h
     | Inr s \<Rightarrow>
         (case monitors_1 ar (build_1 ar s) of
            Inl h \<Rightarrow> h
          | Inr s' \<Rightarrow> finish_1 w s'))"

section \<open>Worlds for evaluating scenarios\<close>

text \<open>One rank, whose kernel answers \<open>run\<close> and the three counts as given.\<close>

definition single_rank :: "bool \<Rightarrow> int32 \<Rightarrow> int32 \<Rightarrow> int32 \<Rightarrow> world" where
  "single_rank ok a b c =
     \<lparr>lower_ranks = [],
      this_rank = \<lparr>run_ok = ok, sp_nonzero = a, stdp_nonzero = b, bcpnn_nonzero = c\<rparr>,
      higher_ranks = []\<rparr>"

text \<open>Rank 0 of two ranks; the non-plastic connection has \<open>a\<close> synapses here and \<open>b\<close> there.\<close>

definition rank0_of_two :: "int32 \<Rightarrow> int32 \<Rightarrow> world" where
  "rank0_of_two a b =
     \<lparr>lower_ranks = [],
      this_rank = \<lparr>run_ok = True, sp_nonzero = a, stdp_nonzero = 0, bcpnn_nonzero = 0\<rparr>,
      higher_ranks = [\<lparr>run_ok = True, sp_nonzero = b, stdp_nonzero = 0, bcpnn_nonzero = 0\<rparr>]\<rparr>"

text \<open>Rank 1 of the same two ranks, with a kernel that fails.\<close>

definition rank1_of_two :: "int32 \<Rightarrow> int32 \<Rightarrow> world" where
  "rank1_of_two a b =
     \<lparr>lower_ranks = [\<lparr>run_ok = True, sp_nonzero = a, stdp_nonzero = 0, bcpnn_nonzero = 0\<rparr>],
      this_rank = \<lparr>run_ok = False, sp_nonzero = b, stdp_nonzero = 0, bcpnn_nonzero = 0\<rparr>,
      higher_ranks = []\<rparr>"

section \<open>Notions the properties are stated with\<close>

subsection \<open>Kinds of events\<close>



text \<open>The sparseness an event hands to the library or prints.\<close>

fun sparseness_of :: "event \<Rightarrow> fpnum option" where
  "sparseness_of (Cerr (Sparseness_is x)) = Some x"
| "sparseness_of (New_SparseConnection _ _ _ x) = Some x"
| "sparseness_of (New_STDPConnection _ _ _ x _ _) = Some x"
| "sparseness_of (New_BcpnnConnection _ _ _ x _ _ _ _ _) = Some x"
| "sparseness_of _ = None"

text \<open>
  The events that hand a derived parameter to the library: the connections with their
  sparseness, and the coefficients, bounds and gains set on them.
\<close>

fun derived_parameter :: "event \<Rightarrow> bool" where
  "derived_parameter (New_SparseConnection _ _ _ _) = True"
| "derived_parameter (New_STDPConnection _ _ _ _ _ _) = True"
| "derived_parameter (Set_A _ _) = True"
| "derived_parameter (Set_B _ _) = True"
| "derived_parameter (Set_min_weight _ _) = True"
| "derived_parameter (Set_max_weight _ _) = True"
| "derived_parameter (New_BcpnnConnection _ _ _ _ _ _ _ _ _) = True"
| "derived_parameter (Set_wgain _ _) = True"
| "derived_parameter (Set_bgain _ _) = True"
| "derived_parameter _ = False"

text \<open>
  The connection whose handle an event assigns or reads, or whose reduced count it
  prints.
\<close>

fun handle_of :: "event \<Rightarrow> connection option" where
  "handle_of (New_SparseConnection _ _ _ _) = Some SpCon"
| "handle_of (New_STDPConnection _ _ _ _ _ _) = Some StdpCon"
| "handle_of (New_BcpnnConnection _ _ _ _ _ _ _ _ _) = Some BcpnnCon"
| "handle_of (Set_A c _) = Some c"
| "handle_of (Set_B c _) = Some c"
| "handle_of (Set_min_weight c _) = Some c"
| "handle_of (Set_max_weight c _) = Some c"
| "handle_of (Set_wgain c _) = Some c"
| "handle_of (Set_bgain c _) = Some c"
| "handle_of (New_WeightMonitor c _ _ _ _ _) = Some c"
| "handle_of (Get_nonzero c) = Some c"
| "handle_of (MPI_Reduce c _) = Some c"
| "handle_of (Cerr (Non_plastic_weights _)) = Some SpCon"
| "handle_of (Cerr (Stdp_weights _)) = Some StdpCon"
| "handle_of (Cerr (Bcpnn_weights _)) = Some BcpnnCon"
| "handle_of _ = None"

fun prints_reduced_count :: "event \<Rightarrow> bool" where
  "prints_reduced_count (Cerr (Non_plastic_weights _)) = True"
| "prints_reduced_count (Cerr (Stdp_weights _)) = True"
| "prints_reduced_count (Cerr (Bcpnn_weights _)) = True"
| "prints_reduced_count _ = False"

subsection \<open>The sum over the ranks\<close>

text \<open>
  The sum of the counts of a connection over all ranks: in \<open>int\<close> arithmetic, and as
  the integer it is.
\<close>

definition total :: "world \<Rightarrow> connection \<Rightarrow> int32" where
  "total w c = sum_list (map (\<lambda>k. get_nonzero k c) (all_ranks w))"

definition exact_total :: "world \<Rightarrow> connection \<Rightarrow> int" where
  "exact_total w c = sum_list (map (\<lambda>k. sint (get_nonzero k c)) (all_ranks w))"

definition fits_int32 :: "int \<Rightarrow> bool" where
  "fits_int32 x = (- (2 ^ 31) \<le> x \<and> x < 2 ^ 31)"

subsection \<open>Rounding errors\<close>

text \<open>\<open>y\<close> approximates \<open>x\<close> with a relative error of at most \<open>u\<close>.\<close>

definition rel_err :: "real \<Rightarrow> real \<Rightarrow> real \<Rightarrow> bool" where
  "rel_err u x y = (\<bar>y - x\<bar> \<le> u * \<bar>x\<bar>)"

text \<open>
  Each of the three roundings in the computation of the sparseness from a fan-in \<open>n\<close>
  and a number of inputs \<open>m\<close> (the two conversions to \<open>float\<close> and the division) has a
  relative error of at most \<open>u\<close>.
\<close>

definition sparseness_roundings_within :: "real \<Rightarrow> fpu \<Rightarrow> real \<Rightarrow> real \<Rightarrow> bool" where
  "sparseness_roundings_within u ar n m =
     (rel_err u n (fl ar n) \<and> rel_err u m (fl ar m) \<and>
      rel_err u (fl ar n / fl ar m) (fl ar (fl ar n / fl ar m)))"

text \<open>
  The product and the quotient on the way to \<open>A\<close>, and the same bound for each of the
  five roundings in \<open>-1.20*tau_post/tau_pre*eta\<close>: the literals \<open>1.20\<close> and \<open>1.0e-3\<close>, the
  first product, the quotient and the last product.
\<close>

definition stdp_product :: "fpu \<Rightarrow> real" where
  "stdp_product ar = db ar (- db ar (120 / 100) * tau_post ar)"

definition stdp_quotient :: "fpu \<Rightarrow> real" where
  "stdp_quotient ar = db ar (stdp_product ar / tau_pre ar)"

definition stdp_roundings_within :: "real \<Rightarrow> fpu \<Rightarrow> bool" where
  "stdp_roundings_within u ar =
     (rel_err u (120 / 100) (db ar (120 / 100)) \<and>
      rel_err u (1 / 1000) (eta ar) \<and>
      rel_err u (- db ar (120 / 100) * tau_post ar) (stdp_product ar) \<and>
      rel_err u (stdp_product ar / tau_pre ar) (stdp_quotient ar) \<and>
      rel_err u (stdp_quotient ar * eta ar) (db ar (stdp_quotient ar * eta ar)))"

subsection \<open>The checks a run has to pass\<close>

definition passes_fan_in :: "fpu \<Rightarrow> locals \<Rightarrow> bool" where
  "passes_fan_in ar s = (\<not> npostsyn s > nbinputs_as_float ar s)"

definition passes_index_checks :: "locals \<Rightarrow> bool" where
  "passes_index_checks s = (nomon s \<or> (\<not> nbinputs s < ipre s \<and> \<not> size' s < ipost s))"

subsection \<open>The events of each stage of a run that passes the checks\<close>

definition init_events :: "fpu \<Rightarrow> world \<Rightarrow> locals \<Rightarrow> event list" where
  "init_events ar w s =
     [Auryn_init (dir s), Set_master_seed (seed s), Set_logfile_loglevel] @
     (if mpi_rank w = 0 then [Cerr (Sparseness_is (derived_sparseness ar s))] else [])"

definition neuron_events :: "fpu \<Rightarrow> locals \<Rightarrow> event list" where
  "neuron_events ar s =
     [New_PoissonGroup (nbinputs s) (kappa s), New_TIFGroup (size' s),
      New_SparseConnection Poisson Poneurons (winit s) (derived_sparseness ar s)]"

definition stdp_events :: "fpu \<Rightarrow> locals \<Rightarrow> event list" where
  "stdp_events ar s =
     (if with_stdp s
      then [New_STDPConnection Poisson Poneurons (winit s) (derived_sparseness ar s)
              (tau_pre ar) (tau_post ar),
            Set_A StdpCon (stdp_A ar), Set_B StdpCon (eta ar),
            Set_min_weight StdpCon 0, Set_max_weight StdpCon 1]
      else [])"

definition bcpnn_events :: "fpu \<Rightarrow> locals \<Rightarrow> event list" where
  "bcpnn_events ar s =
     (if with_bcpnn s
      then [New_BcpnnConnection Poisson Poneurons 0 (derived_sparseness ar s)
              (tau_pre ar) (tau_z_pr ar) (tau_z_po ar) (tau_p ar) (refractory_period ar),
            Set_wgain BcpnnCon (db ar (1 / 10000)), Set_bgain BcpnnCon (db ar (1 / 10000))]
      else [])"

definition probe_events :: "fpu \<Rightarrow> world \<Rightarrow> locals \<Rightarrow> event list" where
  "probe_events ar w s =
     (if with_bcpnn s
      then (if mpi_rank w = 0 then [Cerr (Ipre_ipost (ipre s) (ipost s))] else []) @
           [New_PreTraceMonitor Poisson (tau_z_pr ar) (ipre s) ''zi'',
            New_PostTraceMonitor Poneurons ''tr_z_post'' (ipost s) ''zj'',
            New_PostTraceMonitor Poneurons ''tr_p_post'' (ipost s) ''pj'',
            New_StateMonitor Poneurons (ipost s) ''bj_post'' ''bj'',
            New_WeightMonitor BcpnnCon (ipre s) (ipost s) ''pi'' (db ar (1 / 100)) 2,
            New_WeightMonitor BcpnnCon (ipre s) (ipost s) ''pij'' (db ar (1 / 1000)) 1,
            New_WeightMonitor BcpnnCon (ipre s) (ipost s) ''wij'' (db ar (1 / 100)) 0]
      else [])"

definition monitor_events :: "fpu \<Rightarrow> world \<Rightarrow> locals \<Rightarrow> event list" where
  "monitor_events ar w s =
     (if nomon s then []
      else probe_events ar w s @
           [New_SpikeMonitor Poisson ''prspikes'', New_SpikeMonitor Poneurons ''pospikes''])"

definition count_events :: "world \<Rightarrow> locals \<Rightarrow> event list" where
  "count_events w s =
     [Get_nonzero SpCon, MPI_Reduce SpCon (sp_nonzero (this_rank w))] @
     (if with_stdp s
      then [Get_nonzero StdpCon, MPI_Reduce StdpCon (stdp_nonzero (this_rank w))] else []) @
     (if with_bcpnn s
      then [Get_nonzero BcpnnCon, MPI_Reduce BcpnnCon (bcpnn_nonzero (this_rank w))] else [])"

definition report_events :: "world \<Rightarrow> locals \<Rightarrow> event list" where
  "report_events w s =
     (if mpi_rank w = 0
      then [Cerr Execution_time, Cerr (Non_plastic_weights (total w SpCon))] @
           (if with_stdp s then [Cerr (Stdp_weights (total w StdpCon))] else []) @
           (if with_bcpnn s then [Cerr (Bcpnn_weights (total w BcpnnCon))] else [])
      else [])"

text \<open>Everything up to the monitors, and everything from the kernel's run on.\<close>

definition build_events :: "fpu \<Rightarrow> world \<Rightarrow> locals \<Rightarrow> event list" where
  "build_events ar w s =
     init_events ar w s @ neuron_events ar s @ stdp_events ar s @ bcpnn_events ar s"

definition run_events :: "world \<Rightarrow> locals \<Rightarrow> event list" where
  "run_events w s =
     [MPI_Barrier, Run (simtime s)] @ count_events w s @ report_events w s @
     [Logger_msg ''Freeing ...'', Auryn_free]"

section \<open>The stages of a run\<close>

lemmas stage_defs = check_fan_in_def init_auryn_def neurons_def plasticity_def monitors_def
  bcpnn_probes_def spike_recorders_def auryn_abort_def run_simulation_def count_sp_def
  count_stdp_def count_bcpnn_def count_through_def report_def print_count_def
  close_auryn_def emits_def emit_def halt_def MPI_Reduce_SUM_def derived_sparseness_def
  nbinputs_as_float_def contributions_def all_ranks_def mpi_rank_def

lemmas event_defs = init_events_def neuron_events_def stdp_events_def bcpnn_events_def
  probe_events_def monitor_events_def count_events_def report_events_def total_def
  build_events_def run_events_def

lemma after_parsing_exit:
  "\<not> passes_fan_in ar s \<Longrightarrow>
   after_parsing ar w s = (Exited 0, trace s @ [Cerr Fan_in_error])"
  by (simp add: after_parsing_def check_fan_in_def halt_def emit_def passes_fan_in_def)

lemma after_parsing_abort_ipre:
  assumes "passes_fan_in ar s" and "\<not> nomon s" and "nbinputs s < ipre s"
  shows "after_parsing ar w s =
     (Aborted 4711,
      trace s @ build_events ar w s @ [Logger_msg ''ERROR in main: nbinputs<ipre''])"
  using assms
  by (cases "with_stdp s"; cases "with_bcpnn s"; cases "lower_ranks w";
      simp add: after_parsing_def passes_fan_in_def stage_defs event_defs Let_def)

lemma after_parsing_abort_ipost:
  assumes "passes_fan_in ar s" and "\<not> nomon s" and "\<not> nbinputs s < ipre s"
    and "size' s < ipost s"
  shows "after_parsing ar w s =
     (Aborted 4712,
      trace s @ build_events ar w s @ [Logger_msg ''ERROR in main: size<ipost''])"
  using assms
  by (cases "with_stdp s"; cases "with_bcpnn s"; cases "lower_ranks w";
      simp add: after_parsing_def passes_fan_in_def stage_defs event_defs Let_def)

lemma after_parsing_completed:
  assumes "passes_fan_in ar s" and "passes_index_checks s"
  shows "after_parsing ar w s =
     (Returned (if run_ok (this_rank w) then errcode s else 1),
      trace s @ build_events ar w s @ monitor_events ar w s @ run_events w s)"
  using assms
  by (cases "nomon s"; cases "with_stdp s"; cases "with_bcpnn s"; cases "lower_ranks w";
      cases "run_ok (this_rank w)";
      simp add: after_parsing_def passes_fan_in_def passes_index_checks_def stage_defs
        event_defs Let_def)

section \<open>What option parsing leaves behind\<close>

lemma assign_trace: "(\<And>x s. trace (f x s) = trace s) \<Longrightarrow> trace (assign v f s) = trace s"
  by (cases v) (simp_all add: assign_def)

lemma assign_errcode: "(\<And>x s. errcode (f x s) = errcode s) \<Longrightarrow> errcode (assign v f s) = errcode s"
  by (cases v) (simp_all add: assign_def)

lemma trace_assign_options: "trace (assign_options ar vm s) = trace s"
  by (simp add: assign_options_def assign_trace)

lemma errcode_assign_options: "errcode (assign_options ar vm s) = errcode s"
  by (simp add: assign_options_def assign_errcode)

lemma parse_options_Inr:
  assumes "parse_options ar p (initial ar) = Inr s"
  shows "errcode s = 0 \<and> (trace s = [] \<or> trace s = [Cerr Unknown_type])"
proof (cases p)
  case (Parsed vm)
  with assms have "s = assign_options ar vm (initial ar)"
    by (simp add: parse_options_def halt_def split: if_splits)
  then show ?thesis
    by (simp add: trace_assign_options errcode_assign_options initial_def)
next
  case (Thrown e)
  with assms show ?thesis
    by (cases e) (auto simp add: parse_options_def halt_def emit_def initial_def)
qed

lemma main_after_parsing:
  "parse_options ar p (initial ar) = Inr s \<Longrightarrow> main ar w p = after_parsing ar w s"
  by (simp add: main_def)



section \<open>The fan-in check\<close>



section \<open>Exceptions of option parsing\<close>






section \<open>Runs that pass the checks\<close>

lemma main_completed:
  assumes "parse_options ar p (initial ar) = Inr s"
    and "passes_fan_in ar s" and "passes_index_checks s"
  shows "main ar w p =
     (Returned (if run_ok (this_rank w) then 0 else 1),
      trace s @ build_events ar w s @ monitor_events ar w s @ run_events w s)"
  using assms parse_options_Inr [OF assms(1)]
  by (simp add: main_after_parsing after_parsing_completed)

lemma main_cases:
  assumes "parse_options ar p (initial ar) = Inr s"
  shows "(\<not> passes_fan_in ar s \<and>
          main ar w p = (Exited 0, trace s @ [Cerr Fan_in_error])) \<or>
         (passes_fan_in ar s \<and> \<not> passes_index_checks s \<and>
          main ar w p = (Aborted 4711,
            trace s @ build_events ar w s @ [Logger_msg ''ERROR in main: nbinputs<ipre''])) \<or>
         (passes_fan_in ar s \<and> \<not> passes_index_checks s \<and>
          main ar w p = (Aborted 4712,
            trace s @ build_events ar w s @ [Logger_msg ''ERROR in main: size<ipost''])) \<or>
         (passes_fan_in ar s \<and> passes_index_checks s \<and>
          main ar w p = (Returned (if run_ok (this_rank w) then 0 else 1),
            trace s @ build_events ar w s @ monitor_events ar w s @ run_events w s))"
proof (cases "passes_fan_in ar s")
  case False
  then show ?thesis
    using assms by (simp add: main_after_parsing after_parsing_exit)
next
  case fan: True
  show ?thesis
  proof (cases "passes_index_checks s")
    case True
    with fan assms show ?thesis
      by (simp add: main_completed)
  next
    case False
    then have "\<not> nomon s" and "nbinputs s < ipre s \<or> size' s < ipost s"
      by (auto simp add: passes_index_checks_def)
    with fan assms False show ?thesis
      by (cases "nbinputs s < ipre s")
         (simp_all add: main_after_parsing after_parsing_abort_ipre after_parsing_abort_ipost)
  qed
qed

lemma no_Run_before:
  "Run t \<notin> set (build_events ar w s)"
  by (simp add: event_defs)

lemma Run_reached:
  assumes "parse_options ar p (initial ar) = Inr s"
    and "Run t \<in> set (snd (main ar w p))"
  shows "passes_fan_in ar s \<and> passes_index_checks s"
  using main_cases [OF assms(1), of w] assms(2) parse_options_Inr [OF assms(1)]
  by (auto simp add: no_Run_before)

lemmas option_defs = assign_options_def assign_def no_options_def initial_def exact_def
  nbinputs_as_float_def passes_fan_in_def passes_index_checks_def

lemma parse_no_help:
  "\<not> opt_help vm \<Longrightarrow>
   parse_options ar (Parsed vm) (initial ar) = Inr (assign_options ar vm (initial ar))"
  by (simp add: parse_options_def)

section \<open>A kernel that fails\<close>

text \<open>
  Claim C6. If the kernel's \<open>run\<close> is invoked and returns failure, the program returns
  1, and after the run it still does everything a successful run does: it collects and
  reduces the counts (\<open>count_events\<close>: the non-plastic connection always, each plastic
  connection under its flag), reports them at rank 0 (\<open>report_events\<close>), and ends with
  the teardown, \<open>auryn_free\<close> last.
\<close>

theorem kernel_failure_still_reports:
  assumes "parse_options ar p (initial ar) = Inr s"
    and "Run t \<in> set (snd (main ar w p))"
    and "\<not> run_ok (this_rank w)"
  shows "fst (main ar w p) = Returned 1 \<and>
         (\<exists>before. snd (main ar w p) =
            before @ [MPI_Barrier, Run (simtime s)] @ count_events w s @ report_events w s @
            [Logger_msg ''Freeing ...'', Auryn_free]) \<and>
         Get_nonzero SpCon \<in> set (snd (main ar w p)) \<and>
         MPI_Reduce SpCon (sp_nonzero (this_rank w)) \<in> set (snd (main ar w p)) \<and>
         (mpi_rank w = 0 \<longrightarrow>
            Cerr (Non_plastic_weights (total w SpCon)) \<in> set (snd (main ar w p)))"
proof -
  from Run_reached [OF assms(1,2)]
  have "passes_fan_in ar s" and "passes_index_checks s" by simp_all
  from main_completed [OF assms(1) this, of w] assms(3)
  show ?thesis
    by (simp add: run_events_def count_events_def report_events_def)
qed

text \<open>A single rank whose kernel fails, with the 2500 non-plastic synapses of the default
  network: the status is 1, the count is reported, and the teardown is the last thing
  done.\<close>

theorem failing_kernel_on_one_rank:
  "Run 10 \<in> set (snd (main exact (single_rank False 2500 0 0) (Parsed no_options))) \<and>
   \<not> run_ok (this_rank (single_rank False 2500 0 0)) \<and>
   fst (main exact (single_rank False 2500 0 0) (Parsed no_options)) = Returned 1 \<and>
   Cerr (Non_plastic_weights 2500) \<in> set (snd (main exact (single_rank False 2500 0 0) (Parsed no_options))) \<and>
   last (snd (main exact (single_rank False 2500 0 0) (Parsed no_options))) = Auryn_free"
proof -
  let ?w = "single_rank False 2500 0 0"
  let ?s = "assign_options exact no_options (initial exact)"
  have p: "parse_options exact (Parsed no_options) (initial exact) = Inr ?s"
    by (simp add: parse_no_help no_options_def)
  have c: "passes_fan_in exact ?s" "passes_index_checks ?s"
    by (simp_all add: option_defs)
  have m: "snd (main exact ?w (Parsed no_options)) =
      trace ?s @ build_events exact ?w ?s @ monitor_events exact ?w ?s @ run_events ?w ?s"
    by (simp add: main_completed [OF p c])
  have r: "Run 10 \<in> set (snd (main exact ?w (Parsed no_options)))"
    unfolding m by (simp add: run_events_def option_defs)
  have f: "\<not> run_ok (this_rank ?w)"
    by (simp add: single_rank_def)
  have t: "total ?w SpCon = 2500" "mpi_rank ?w = 0"
    by (simp_all add: total_def all_ranks_def mpi_rank_def single_rank_def)
  have l: "last (snd (main exact ?w (Parsed no_options))) = Auryn_free"
    unfolding m by (simp add: run_events_def)
  from kernel_failure_still_reports [OF p r f] r f l t
  show ?thesis
    by simp
qed

section \<open>The checks of the monitored indices\<close>

text \<open>
  Claim C4 fails on the code by one: \<open>nbinputs<ipre\<close> lets \<open>ipre = nbinputs\<close> through.
  With 100 inputs (units 0 to 99), the associative rule selected and \<open>--ipre 100\<close>,
  the run is not aborted: it returns 0, and a trace monitor is bound to unit 100 of the
  input population. The variant \<open>sim_bcpnn_1\<close> has the same check with \<open>ipre\<close> fixed
  to 99: with \<open>--nbinputs 99\<close> it binds a monitor to unit 99 of a relay population of 99
  units.
\<close>

theorem monitored_index_equal_to_size_is_accepted:
  "nbinputs (assign_options exact (no_options\<lparr>opt_with_bcpnn := Some True, opt_ipre := Some 100\<rparr>)
      (initial exact)) = 100 \<and>
   fst (main exact (single_rank True 0 0 0)
      (Parsed (no_options\<lparr>opt_with_bcpnn := Some True, opt_ipre := Some 100\<rparr>))) = Returned 0 \<and>
   New_PreTraceMonitor Poisson (25 / 1000) 100 ''zi'' \<in>
     set (snd (main exact (single_rank True 0 0 0)
       (Parsed (no_options\<lparr>opt_with_bcpnn := Some True, opt_ipre := Some 100\<rparr>)))) \<and>
   main_1 exact (single_rank True 0 0 0) (Parsed (no_options_1\<lparr>opt1_nbinputs := Some 99\<rparr>)) =
     (Returned 0,
      [Auryn_init ''.'', Set_master_seed 1, Set_logfile_loglevel,
       New_PoissonGroup 99 20, New_TIFGroup 99, New_TIFGroup 25,
       New_SparseConnection Poisson Prneurons (4 / 100) (Fin (6 / 10)),
       New_SparseConnection Prneurons Poneurons (4 / 100) (Fin (6 / 10)),
       New_BcpnnConnection Prneurons Poneurons 0 (Fin (6 / 10))
         (20 / 1000) (25 / 1000) (10 / 1000) (2 / 10) (5 / 1000),
       Set_wgain BcpnnCon (1 / 10000), Set_bgain BcpnnCon (1 / 10000),
       New_PreTraceStateMonitor Prneurons (25 / 1000) 99 ''zi'',
       New_PostTraceStateMonitor Poneurons (10 / 1000) 17 ''zj'',
       MPI_Barrier, Run 10, Cerr Execution_time, Logger_msg ''Freeing ...'', Auryn_free])"
proof -
  have variant: "main_1 exact (single_rank True 0 0 0)
      (Parsed (no_options_1\<lparr>opt1_nbinputs := Some 99\<rparr>)) =
     (Returned 0,
      [Auryn_init ''.'', Set_master_seed 1, Set_logfile_loglevel,
       New_PoissonGroup 99 20, New_TIFGroup 99, New_TIFGroup 25,
       New_SparseConnection Poisson Prneurons (4 / 100) (Fin (6 / 10)),
       New_SparseConnection Prneurons Poneurons (4 / 100) (Fin (6 / 10)),
       New_BcpnnConnection Prneurons Poneurons 0 (Fin (6 / 10))
         (20 / 1000) (25 / 1000) (10 / 1000) (2 / 10) (5 / 1000),
       Set_wgain BcpnnCon (1 / 10000), Set_bgain BcpnnCon (1 / 10000),
       New_PreTraceStateMonitor Prneurons (25 / 1000) 99 ''zi'',
       New_PostTraceStateMonitor Poneurons (10 / 1000) 17 ''zj'',
       MPI_Barrier, Run 10, Cerr Execution_time, Logger_msg ''Freeing ...'', Auryn_free])"
    by (simp add: main_1_def parse_options_1_def assign_options_1_def assign_def
        no_options_1_def initial_1_def build_1_def monitors_1_def finish_1_def
        auryn_abort_def Let_def exact_def single_rank_def mpi_rank_def tau_pre_def
        tau_z_pr_def tau_z_po_def tau_p_def refractory_period_def)
  let ?vm = "no_options\<lparr>opt_with_bcpnn := Some True, opt_ipre := Some 100\<rparr>"
  let ?w = "single_rank True 0 0 0"
  let ?s = "assign_options exact ?vm (initial exact)"
  have p: "parse_options exact (Parsed ?vm) (initial exact) = Inr ?s"
    by (simp add: parse_no_help no_options_def)
  have c: "passes_fan_in exact ?s" "passes_index_checks ?s"
    by (simp_all add: option_defs)
  have m: "main exact ?w (Parsed ?vm) = (Returned (if run_ok (this_rank ?w) then 0 else 1),
      trace ?s @ build_events exact ?w ?s @ monitor_events exact ?w ?s @ run_events ?w ?s)"
    by (rule main_completed [OF p c])
  have n: "nbinputs ?s = 100" "ipre ?s = 100" "with_bcpnn ?s" "\<not> nomon ?s"
    by (simp_all add: option_defs)
  have k: "run_ok (this_rank ?w)"
    by (simp add: single_rank_def)
  have d: "tau_z_pr exact = 25 / 1000"
    by (simp add: tau_z_pr_def exact_def)
  show ?thesis
    unfolding m variant by (simp add: n k d monitor_events_def probe_events_def)
qed

section \<open>Spike recorders and probes\<close>







section \<open>The reduced counts\<close>

lemma signed_take_bit_sint:
  "signed_take_bit (LENGTH('a) - 1) (sint (w :: 'a::len word)) = sint w"
  using sint_ge [of w] sint_lt [of w] by (simp add: signed_take_bit_int_eq_self_iff)

lemma sint_sum_list:
  "sint (sum_list ws) = signed_take_bit (LENGTH('a) - 1) (sum_list (map sint ws))"
  for ws :: "'a::len word list"
proof (induction ws)
  case Nil
  show ?case by simp
next
  case (Cons a ws)
  have "sint (a + sum_list ws) =
      signed_take_bit (LENGTH('a) - 1) (sint a + sint (sum_list ws))"
    by (rule sint_word_add)
  also have "\<dots> = signed_take_bit (LENGTH('a) - 1)
      (signed_take_bit (LENGTH('a) - 1) (sint a) +
       signed_take_bit (LENGTH('a) - 1) (sum_list (map sint ws)))"
    by (simp only: Cons.IH signed_take_bit_sint)
  also have "\<dots> = signed_take_bit (LENGTH('a) - 1) (sint a + sum_list (map sint ws))"
    by (rule signed_take_bit_add)
  finally show ?case by simp
qed

lemma total_exact:
  assumes "fits_int32 (exact_total w c)"
  shows "sint (total w c) = exact_total w c"
proof -
  have "sint (total w c) = signed_take_bit 31 (exact_total w c)"
    by (simp add: total_def exact_total_def sint_sum_list comp_def)
  with assms show ?thesis
    by (simp add: fits_int32_def signed_take_bit_int_eq_self)
qed

lemma reports_in_build:
  "Cerr (Non_plastic_weights g) \<notin> set (build_events ar w s)"
  "Cerr (Stdp_weights g) \<notin> set (build_events ar w s)"
  "Cerr (Bcpnn_weights g) \<notin> set (build_events ar w s)"
  "MPI_Reduce c n \<notin> set (build_events ar w s)"
  by (simp_all add: event_defs)

lemma reports_in_monitors:
  "Cerr (Non_plastic_weights g) \<notin> set (monitor_events ar w s)"
  "Cerr (Stdp_weights g) \<notin> set (monitor_events ar w s)"
  "Cerr (Bcpnn_weights g) \<notin> set (monitor_events ar w s)"
  "MPI_Reduce c n \<notin> set (monitor_events ar w s)"
  by (simp_all add: event_defs)

lemma reports_in_run:
  "Cerr (Non_plastic_weights g) \<in> set (run_events w s) \<longleftrightarrow>
     mpi_rank w = 0 \<and> g = total w SpCon"
  "Cerr (Stdp_weights g) \<in> set (run_events w s) \<longleftrightarrow>
     mpi_rank w = 0 \<and> with_stdp s \<and> g = total w StdpCon"
  "Cerr (Bcpnn_weights g) \<in> set (run_events w s) \<longleftrightarrow>
     mpi_rank w = 0 \<and> with_bcpnn s \<and> g = total w BcpnnCon"
  "MPI_Reduce SpCon n \<in> set (run_events w s) \<longleftrightarrow> n = sp_nonzero (this_rank w)"
  "MPI_Reduce StdpCon n \<in> set (run_events w s) \<longleftrightarrow>
     with_stdp s \<and> n = stdp_nonzero (this_rank w)"
  "MPI_Reduce BcpnnCon n \<in> set (run_events w s) \<longleftrightarrow>
     with_bcpnn s \<and> n = bcpnn_nonzero (this_rank w)"
  by (auto simp add: run_events_def count_events_def report_events_def)

lemma reports_in_parsed:
  assumes "parse_options ar p (initial ar) = Inr s"
  shows "Cerr (Non_plastic_weights g) \<notin> set (trace s)"
    "Cerr (Stdp_weights g) \<notin> set (trace s)"
    "Cerr (Bcpnn_weights g) \<notin> set (trace s)"
    "MPI_Reduce c n \<notin> set (trace s)"
  using parse_options_Inr [OF assms] by auto

text \<open>
  Claim C5, as amended. In a run that gets to the kernel, on any number of ranks:
  a count is reported at rank 0 and nowhere else, and the count reported for a
  connection is the sum over all ranks of the counts the ranks hold in their \<open>int\<close>,
  taken in \<open>int\<close> arithmetic; it is the exact sum whenever the exact sum fits a 32-bit
  \<open>int\<close>. The non-plastic connection is always reduced and reported. A plastic
  connection is reduced and reported if and only if its flag is set: without the flag
  there is no reduction and no report for it.
\<close>

theorem reduced_counts_are_sums:
  assumes "parse_options ar p (initial ar) = Inr s"
    and "Run t \<in> set (snd (main ar w p))"
  shows "(\<forall>g. Cerr (Non_plastic_weights g) \<in> set (snd (main ar w p)) \<longleftrightarrow>
              mpi_rank w = 0 \<and> g = total w SpCon) \<and>
         (\<forall>g. Cerr (Stdp_weights g) \<in> set (snd (main ar w p)) \<longleftrightarrow>
              mpi_rank w = 0 \<and> with_stdp s \<and> g = total w StdpCon) \<and>
         (\<forall>g. Cerr (Bcpnn_weights g) \<in> set (snd (main ar w p)) \<longleftrightarrow>
              mpi_rank w = 0 \<and> with_bcpnn s \<and> g = total w BcpnnCon) \<and>
         (\<forall>n. MPI_Reduce SpCon n \<in> set (snd (main ar w p)) \<longleftrightarrow>
              n = sp_nonzero (this_rank w)) \<and>
         (\<forall>n. MPI_Reduce StdpCon n \<in> set (snd (main ar w p)) \<longleftrightarrow>
              with_stdp s \<and> n = stdp_nonzero (this_rank w)) \<and>
         (\<forall>n. MPI_Reduce BcpnnCon n \<in> set (snd (main ar w p)) \<longleftrightarrow>
              with_bcpnn s \<and> n = bcpnn_nonzero (this_rank w)) \<and>
         (\<forall>c. fits_int32 (exact_total w c) \<longrightarrow> sint (total w c) = exact_total w c)"
proof -
  from Run_reached [OF assms]
  have "passes_fan_in ar s" and "passes_index_checks s" by simp_all
  from main_completed [OF assms(1) this, of w]
  have m: "snd (main ar w p) =
      trace s @ build_events ar w s @ monitor_events ar w s @ run_events w s"
    by simp
  show ?thesis
    unfolding m
    by (simp add: reports_in_parsed [OF assms(1)] reports_in_build reports_in_monitors
        reports_in_run total_exact)
qed


lemma two_ranks_run:
  "snd (main exact (rank0_of_two a b) (Parsed no_options)) =
     trace (assign_options exact no_options (initial exact)) @
     build_events exact (rank0_of_two a b) (assign_options exact no_options (initial exact)) @
     monitor_events exact (rank0_of_two a b) (assign_options exact no_options (initial exact)) @
     run_events (rank0_of_two a b) (assign_options exact no_options (initial exact))"
proof -
  let ?s = "assign_options exact no_options (initial exact)"
  have p: "parse_options exact (Parsed no_options) (initial exact) = Inr ?s"
    by (simp add: parse_no_help no_options_def)
  have c: "passes_fan_in exact ?s" "passes_index_checks ?s"
    by (simp_all add: option_defs)
  show ?thesis
    by (simp add: main_completed [OF p c])
qed

text \<open>Two ranks with 1200 and 1300 non-plastic synapses and no rule selected: rank 0
  reports 2500, and nothing is reduced or reported for the pair rule.\<close>

theorem two_ranks_1200_and_1300:
  "Run 10 \<in> set (snd (main exact (rank0_of_two 1200 1300) (Parsed no_options))) \<and>
   fits_int32 (exact_total (rank0_of_two 1200 1300) SpCon) \<and>
   exact_total (rank0_of_two 1200 1300) SpCon = 2500 \<and>
   Cerr (Non_plastic_weights 2500) \<in>
     set (snd (main exact (rank0_of_two 1200 1300) (Parsed no_options))) \<and>
   \<not> with_stdp (assign_options exact no_options (initial exact)) \<and>
   (\<forall>n. MPI_Reduce StdpCon n \<notin> set (snd (main exact (rank0_of_two 1200 1300) (Parsed no_options)))) \<and>
   (\<forall>g. Cerr (Stdp_weights g) \<notin> set (snd (main exact (rank0_of_two 1200 1300) (Parsed no_options))))"
proof -
  let ?w = "rank0_of_two 1200 1300"
  let ?s = "assign_options exact no_options (initial exact)"
  have p: "parse_options exact (Parsed no_options) (initial exact) = Inr ?s"
    by (simp add: parse_no_help no_options_def)
  have r: "Run 10 \<in> set (snd (main exact ?w (Parsed no_options)))"
    unfolding two_ranks_run by (simp add: run_events_def option_defs)
  have e: "exact_total ?w SpCon = 2500" and t: "total ?w SpCon = 2500" and z: "mpi_rank ?w = 0"
    by (simp_all add: exact_total_def total_def all_ranks_def rank0_of_two_def mpi_rank_def)
  have f: "fits_int32 (exact_total ?w SpCon)"
    by (simp add: e fits_int32_def)
  have n: "\<not> with_stdp ?s"
    by (simp add: option_defs)
  from reduced_counts_are_sums [OF p r] r e t z f n
  show ?thesis
    by simp
qed

text \<open>
  Claim C5 as stated fails where the sum leaves the range of \<open>int\<close>. A network of 65536
  inputs fully connected to 32768 neurons has \<open>2^31\<close> synapses; on two ranks with \<open>2^30\<close>
  of them each, rank 0 reports \<open>-2^31\<close>.
\<close>

theorem two_ranks_of_2_to_the_30:
  "exact_total (rank0_of_two 1073741824 1073741824) SpCon = 2147483648 \<and>
   Cerr (Non_plastic_weights (- 2147483648)) \<in>
     set (snd (main exact (rank0_of_two 1073741824 1073741824)
       (Parsed (no_options\<lparr>opt_nbinputs := Some 65536, opt_size := Some 32768,
          opt_npostsyn := Some 65536\<rparr>)))) \<and>
   sint (- 2147483648 :: int32) = - 2147483648"
proof -
  let ?vm = "no_options\<lparr>opt_nbinputs := Some 65536, opt_size := Some 32768,
    opt_npostsyn := Some 65536\<rparr>"
  let ?w = "rank0_of_two 1073741824 1073741824"
  let ?s = "assign_options exact ?vm (initial exact)"
  have p: "parse_options exact (Parsed ?vm) (initial exact) = Inr ?s"
    by (simp add: parse_no_help no_options_def)
  have c: "passes_fan_in exact ?s" "passes_index_checks ?s"
    by (simp_all add: option_defs)
  have m: "snd (main exact ?w (Parsed ?vm)) =
      trace ?s @ build_events exact ?w ?s @ monitor_events exact ?w ?s @ run_events ?w ?s"
    by (simp add: main_completed [OF p c])
  have e: "exact_total ?w SpCon = 2147483648"
    by (simp add: exact_total_def all_ranks_def rank0_of_two_def)
  have t: "total ?w SpCon = - 2147483648" and z: "mpi_rank ?w = 0"
    by (simp_all add: total_def all_ranks_def rank0_of_two_def mpi_rank_def)
  have "Cerr (Non_plastic_weights (- 2147483648)) \<in> set (run_events ?w ?s)"
    by (simp add: run_events_def report_events_def t z)
  then show ?thesis
    unfolding m by (simp add: e)
qed

section \<open>The conditionally constructed handles\<close>

lemma guarded_build:
  "list_all (\<lambda>e. (handle_of e = Some StdpCon \<longrightarrow> with_stdp s) \<and>
                 (handle_of e = Some BcpnnCon \<longrightarrow> with_bcpnn s) \<and>
                 (prints_reduced_count e \<longrightarrow> mpi_rank w = 0)) (build_events ar w s)"
  by (simp add: event_defs)

lemma guarded_monitors:
  "list_all (\<lambda>e. (handle_of e = Some StdpCon \<longrightarrow> with_stdp s) \<and>
                 (handle_of e = Some BcpnnCon \<longrightarrow> with_bcpnn s) \<and>
                 (prints_reduced_count e \<longrightarrow> mpi_rank w = 0)) (monitor_events ar w s)"
  by (simp add: event_defs)

lemma guarded_run:
  "list_all (\<lambda>e. (handle_of e = Some StdpCon \<longrightarrow> with_stdp s) \<and>
                 (handle_of e = Some BcpnnCon \<longrightarrow> with_bcpnn s) \<and>
                 (prints_reduced_count e \<longrightarrow> mpi_rank w = 0)) (run_events w s)"
  by (simp add: event_defs)

lemma guarded_parsed:
  assumes "parse_options ar p (initial ar) = Inr s"
  shows "list_all (\<lambda>e. (handle_of e = Some StdpCon \<longrightarrow> with_stdp s) \<and>
                 (handle_of e = Some BcpnnCon \<longrightarrow> with_bcpnn s) \<and>
                 (prints_reduced_count e \<longrightarrow> mpi_rank w = 0)) (trace s)"
  using parse_options_Inr [OF assms] by auto

lemma main_never_undefined: "fst (main ar w p) \<noteq> Undefined_behaviour"
proof (cases "parse_options ar p (initial ar)")
  case (Inl h)
  then show ?thesis
    by (cases p) (auto simp add: main_def parse_options_def halt_def split: if_splits exn.splits)
next
  case (Inr s)
  from main_cases [OF this, of w] show ?thesis
    by auto
qed

text \<open>
  Claim C10. No run reads a handle or a reduced count that was never assigned: the
  outcome is never \<open>Undefined_behaviour\<close>. Every event that assigns or reads the handle
  of the STDP connection, or prints its reduced count, occurs only in a run with
  \<open>with_stdp\<close> set; the same holds for the BCPNN connection and \<open>with_bcpnn\<close>; and a
  reduced count is printed at rank 0 only.
\<close>

theorem handles_used_under_their_flags:
  "fst (main ar w p) \<noteq> Undefined_behaviour \<and>
   (\<forall>s e. parse_options ar p (initial ar) = Inr s \<and> e \<in> set (snd (main ar w p)) \<longrightarrow>
      (handle_of e = Some StdpCon \<longrightarrow> with_stdp s) \<and>
      (handle_of e = Some BcpnnCon \<longrightarrow> with_bcpnn s) \<and>
      (prints_reduced_count e \<longrightarrow> mpi_rank w = 0))"
proof -
  have "list_all (\<lambda>e. (handle_of e = Some StdpCon \<longrightarrow> with_stdp s) \<and>
                 (handle_of e = Some BcpnnCon \<longrightarrow> with_bcpnn s) \<and>
                 (prints_reduced_count e \<longrightarrow> mpi_rank w = 0)) (snd (main ar w p))"
    if "parse_options ar p (initial ar) = Inr s" for s
    using main_cases [OF that, of w] guarded_parsed [OF that, of w]
      guarded_build [of s w ar] guarded_monitors [of s w ar] guarded_run [of s w]
    by auto
  then have "(handle_of e = Some StdpCon \<longrightarrow> with_stdp s) \<and>
      (handle_of e = Some BcpnnCon \<longrightarrow> with_bcpnn s) \<and>
      (prints_reduced_count e \<longrightarrow> mpi_rank w = 0)"
    if "parse_options ar p (initial ar) = Inr s" and "e \<in> set (snd (main ar w p))" for s e
    using that by (simp add: list_all_iff)
  then show ?thesis
    using main_never_undefined [of ar w p] by blast
qed

text \<open>A run with the pair rule on one rank: the handle is read for the count, the reduced
  count is printed, and the flag is set.\<close>

theorem pair_rule_run_uses_its_handle:
  "parse_options exact (Parsed (no_options\<lparr>opt_with_stdp := Some True\<rparr>)) (initial exact) =
     Inr (assign_options exact (no_options\<lparr>opt_with_stdp := Some True\<rparr>) (initial exact)) \<and>
   Get_nonzero StdpCon \<in>
     set (snd (main exact (single_rank True 2500 2500 0) (Parsed (no_options\<lparr>opt_with_stdp := Some True\<rparr>)))) \<and>
   Cerr (Stdp_weights 2500) \<in>
     set (snd (main exact (single_rank True 2500 2500 0) (Parsed (no_options\<lparr>opt_with_stdp := Some True\<rparr>)))) \<and>
   with_stdp (assign_options exact (no_options\<lparr>opt_with_stdp := Some True\<rparr>) (initial exact)) \<and>
   mpi_rank (single_rank True 2500 2500 0) = 0 \<and>
   fst (main exact (single_rank True 2500 2500 0) (Parsed (no_options\<lparr>opt_with_stdp := Some True\<rparr>))) =
     Returned 0"
proof -
  let ?vm = "no_options\<lparr>opt_with_stdp := Some True\<rparr>"
  let ?w = "single_rank True 2500 2500 0"
  let ?s = "assign_options exact ?vm (initial exact)"
  have p: "parse_options exact (Parsed ?vm) (initial exact) = Inr ?s"
    by (simp add: parse_no_help no_options_def)
  have c: "passes_fan_in exact ?s" "passes_index_checks ?s"
    by (simp_all add: option_defs)
  have m: "main exact ?w (Parsed ?vm) = (Returned (if run_ok (this_rank ?w) then 0 else 1),
      trace ?s @ build_events exact ?w ?s @ monitor_events exact ?w ?s @ run_events ?w ?s)"
    by (rule main_completed [OF p c])
  have f: "with_stdp ?s"
    by (simp add: option_defs)
  have t: "total ?w StdpCon = 2500" "mpi_rank ?w = 0" "run_ok (this_rank ?w)"
    by (simp_all add: total_def all_ranks_def mpi_rank_def single_rank_def)
  have g: "Get_nonzero StdpCon \<in> set (snd (main exact ?w (Parsed ?vm)))"
    unfolding m by (simp add: run_events_def count_events_def f)
  have r: "Cerr (Stdp_weights 2500) \<in> set (snd (main exact ?w (Parsed ?vm)))"
    unfolding m by (simp add: run_events_def report_events_def f t)
  have o: "fst (main exact ?w (Parsed ?vm)) = Returned 0"
    unfolding m by (simp add: t)
  from handles_used_under_their_flags [of exact ?w "Parsed ?vm"] p g
  have "with_stdp ?s"
    by (metis handle_of.simps(11))
  with p g r t o show ?thesis
    by simp
qed

section \<open>Rounding errors through a quotient and through products\<close>

lemma quotient_rel_err:
  assumes u: "0 \<le> u" "u < 1" and M: "0 < M"
    and a: "rel_err u N a" and b: "rel_err u M b" and s: "rel_err u (a / b) s"
  shows "rel_err ((3 * u + u\<^sup>2) / (1 - u)) (N / M) s"
proof -
  from b M have bl: "(1 - u) * M \<le> b"
    by (simp add: rel_err_def abs_le_iff algebra_simps)
  from u M have "0 < (1 - u) * M"
    by simp
  with bl have bp: "0 < b"
    by linarith
  from a have al: "\<bar>a\<bar> \<le> (1 + u) * \<bar>N\<bar>"
    unfolding rel_err_def by (smt (verit, best) distrib_right mult_cancel_right1)
  have inv: "1 / b \<le> 1 / ((1 - u) * M)"
    using bl \<open>0 < (1 - u) * M\<close> by (simp add: frac_le)
  have q: "\<bar>a / b\<bar> \<le> (1 + u) * \<bar>N\<bar> / ((1 - u) * M)"
  proof -
    have "\<bar>a / b\<bar> = \<bar>a\<bar> / b"
      using bp by simp
    also have "\<dots> \<le> ((1 + u) * \<bar>N\<bar>) / b"
      using al bp by (simp add: divide_right_mono)
    also have "\<dots> \<le> ((1 + u) * \<bar>N\<bar>) / ((1 - u) * M)"
      using bl \<open>0 < (1 - u) * M\<close> u by (intro divide_left_mono) (simp_all add: bp)
    finally show ?thesis .
  qed
  have d: "\<bar>a / b - N / M\<bar> \<le> 2 * u * \<bar>N\<bar> / ((1 - u) * M)"
  proof -
    have "a / b - N / M = ((a - N) * M - N * (b - M)) / (b * M)"
      using bp M by (simp add: field_simps)
    then have "\<bar>a / b - N / M\<bar> = \<bar>(a - N) * M - N * (b - M)\<bar> / (b * M)"
      using bp M by simp
    also have "\<bar>(a - N) * M - N * (b - M)\<bar> \<le> \<bar>(a - N) * M\<bar> + \<bar>N * (b - M)\<bar>"
      by (rule abs_triangle_ineq4)
    also have "\<dots> = \<bar>a - N\<bar> * M + \<bar>N\<bar> * \<bar>b - M\<bar>"
      using M by (simp add: abs_mult)
    also have "\<dots> \<le> (u * \<bar>N\<bar>) * M + \<bar>N\<bar> * (u * M)"
    proof (intro add_mono mult_right_mono mult_left_mono)
      show "\<bar>a - N\<bar> \<le> u * \<bar>N\<bar>" using a by (simp add: rel_err_def)
      show "\<bar>b - M\<bar> \<le> u * M" using b M by (simp add: rel_err_def)
    qed (use M in simp_all)
    finally have "\<bar>a / b - N / M\<bar> \<le> ((u * \<bar>N\<bar>) * M + \<bar>N\<bar> * (u * M)) / (b * M)"
      using bp M by (simp add: divide_right_mono)
    also have "\<dots> = (2 * u * \<bar>N\<bar>) / b"
      using M by (simp add: field_simps)
    also have "\<dots> \<le> (2 * u * \<bar>N\<bar>) / ((1 - u) * M)"
      using bl \<open>0 < (1 - u) * M\<close> u by (intro divide_left_mono) (simp_all add: bp)
    finally show ?thesis .
  qed
  have "\<bar>s - N / M\<bar> \<le> \<bar>s - a / b\<bar> + \<bar>a / b - N / M\<bar>"
    by simp
  also have "\<dots> \<le> u * \<bar>a / b\<bar> + 2 * u * \<bar>N\<bar> / ((1 - u) * M)"
    using s d by (simp add: rel_err_def)
  also have "\<dots> \<le> u * ((1 + u) * \<bar>N\<bar> / ((1 - u) * M)) + 2 * u * \<bar>N\<bar> / ((1 - u) * M)"
    by (intro add_mono mult_left_mono q u order_refl)
  also have "\<dots> = ((3 * u + u\<^sup>2) * \<bar>N\<bar>) / ((1 - u) * M)"
    by (simp add: power2_eq_square algebra_simps add_divide_distrib)
  also have "\<dots> = (3 * u + u\<^sup>2) / (1 - u) * (\<bar>N\<bar> / M)"
    by simp
  also have "\<bar>N\<bar> / M = \<bar>N / M\<bar>"
    using M by simp
  finally show ?thesis
    by (simp add: rel_err_def)
qed


lemma rel_err_abs:
  assumes "rel_err e X x"
  shows "\<bar>x\<bar> \<le> (1 + e) * \<bar>X\<bar>"
proof -
  have "\<bar>x\<bar> \<le> \<bar>x - X\<bar> + \<bar>X\<bar>"
    by simp
  also have "\<dots> \<le> e * \<bar>X\<bar> + \<bar>X\<bar>"
    using assms by (simp add: rel_err_def)
  finally show ?thesis
    by (simp add: algebra_simps)
qed

lemma rel_err_rounded:
  assumes "0 \<le> u" and "rel_err e X x" and "rel_err u x y"
  shows "rel_err ((1 + e) * (1 + u) - 1) X y"
proof -
  have "\<bar>y - X\<bar> \<le> \<bar>y - x\<bar> + \<bar>x - X\<bar>"
    by simp
  also have "\<dots> \<le> u * \<bar>x\<bar> + e * \<bar>X\<bar>"
    using assms(2,3) by (simp add: rel_err_def add_mono)
  also have "\<dots> \<le> u * ((1 + e) * \<bar>X\<bar>) + e * \<bar>X\<bar>"
    by (intro add_mono mult_left_mono rel_err_abs assms order_refl)
  also have "\<dots> = ((1 + e) * (1 + u) - 1) * \<bar>X\<bar>"
    by (simp add: algebra_simps)
  finally show ?thesis
    by (simp add: rel_err_def)
qed

lemma rel_err_times:
  assumes "0 \<le> e" and "rel_err e X x" and "rel_err u Y y"
  shows "rel_err ((1 + e) * (1 + u) - 1) (X * Y) (x * y)"
proof -
  have "x * y - X * Y = (x - X) * Y + x * (y - Y)"
    by (simp add: algebra_simps)
  then have "\<bar>x * y - X * Y\<bar> \<le> \<bar>(x - X) * Y\<bar> + \<bar>x * (y - Y)\<bar>"
    by (simp add: abs_triangle_ineq)
  also have "\<dots> = \<bar>x - X\<bar> * \<bar>Y\<bar> + \<bar>x\<bar> * \<bar>y - Y\<bar>"
    by (simp add: abs_mult)
  also have "\<dots> \<le> (e * \<bar>X\<bar>) * \<bar>Y\<bar> + ((1 + e) * \<bar>X\<bar>) * (u * \<bar>Y\<bar>)"
  proof (intro add_mono mult_mono)
    show "\<bar>x - X\<bar> \<le> e * \<bar>X\<bar>" using assms(2) by (simp add: rel_err_def)
    show "\<bar>y - Y\<bar> \<le> u * \<bar>Y\<bar>" using assms(3) by (simp add: rel_err_def)
    show "\<bar>x\<bar> \<le> (1 + e) * \<bar>X\<bar>" by (rule rel_err_abs) (rule assms(2))
  qed (use assms(1) in simp_all)
  also have "\<dots> = ((1 + e) * (1 + u) - 1) * \<bar>X * Y\<bar>"
    by (simp add: algebra_simps abs_mult)
  finally show ?thesis
    by (simp add: rel_err_def)
qed

lemma rel_err_cancel:
  assumes "t \<noteq> 0" and "rel_err u (- (L * t)) p"
  shows "rel_err u (- L) (p / t)"
proof -
  have "p / t - (- L) = (p - (- (L * t))) / t"
    using assms(1) by (simp add: field_simps)
  then have "\<bar>p / t - (- L)\<bar> = \<bar>p - (- (L * t))\<bar> / \<bar>t\<bar>"
    by simp
  also have "\<dots> \<le> (u * \<bar>- (L * t)\<bar>) / \<bar>t\<bar>"
    using assms(2) by (simp add: rel_err_def divide_right_mono)
  also have "\<dots> = u * \<bar>- L\<bar>"
    using assms(1) by (simp add: abs_mult)
  finally show ?thesis
    by (simp add: rel_err_def)
qed

lemma rel_err_minus: "rel_err u X x \<Longrightarrow> rel_err u (- X) (- x)"
  by (simp add: rel_err_def abs_minus_commute)

lemma five_roundings:
  assumes u: "0 \<le> u" and t: "t \<noteq> 0"
    and L: "rel_err u (120 / 100) L" and e: "rel_err u (1 / 1000) e"
    and p: "rel_err u (- L * t) p" and q: "rel_err u (p / t) q" and a: "rel_err u (q * e) a"
  shows "rel_err ((1 + u) ^ 5 - 1) (- 12 / 10000) a"
proof -
  have "rel_err u (- L) (p / t)"
    using rel_err_cancel [OF t, of u L p] p by simp
  with rel_err_minus [OF L] have "rel_err ((1 + u) * (1 + u) - 1) (- (120 / 100)) (p / t)"
    by (intro rel_err_rounded u)
  from rel_err_rounded [OF u this q]
  have "rel_err ((1 + u) ^ 3 - 1) (- (120 / 100)) q"
    by (simp add: power3_eq_cube algebra_simps)
  moreover have "0 \<le> (1 + u) ^ 3 - 1"
    using u by (simp add: one_le_power)
  ultimately have "rel_err ((1 + ((1 + u) ^ 3 - 1)) * (1 + u) - 1) (- (120 / 100) * (1 / 1000)) (q * e)"
    using e by (intro rel_err_times)
  then have "rel_err ((1 + u) ^ 4 - 1) (- (120 / 100) * (1 / 1000)) (q * e)"
    by (simp add: power_numeral_reduce algebra_simps)
  from rel_err_rounded [OF u this a]
  have "rel_err ((1 + u) ^ 4 * (1 + u) - 1) (- (120 / 100) * (1 / 1000)) a"
    by simp
  then show ?thesis
    by (simp add: power_numeral_reduce algebra_simps)
qed

section \<open>The derived sparseness\<close>

lemma assign_npostsyn:
  "(\<And>x s. npostsyn (f x s) = npostsyn s) \<Longrightarrow> npostsyn (assign v f s) = npostsyn s"
  by (cases v) (simp_all add: assign_def)

lemma npostsyn_assign_options:
  "opt_npostsyn vm = Some n \<Longrightarrow>
   npostsyn (assign_options ar vm s) = fl ar (real_of_int (sint n))"
  by (simp add: assign_options_def assign_npostsyn) (simp add: assign_def)

lemma sparseness_in_build:
  "list_all (\<lambda>e. \<forall>x. sparseness_of e = Some x \<longrightarrow> x = derived_sparseness ar s)
     (build_events ar w s)"
  by (simp add: event_defs)

lemma sparseness_in_monitors:
  "list_all (\<lambda>e. \<forall>x. sparseness_of e = Some x \<longrightarrow> x = y) (monitor_events ar w s)"
  by (simp add: event_defs)

lemma sparseness_in_run:
  "list_all (\<lambda>e. \<forall>x. sparseness_of e = Some x \<longrightarrow> x = y) (run_events w s)"
  by (simp add: event_defs)

lemma sparseness_in_parsed:
  assumes "parse_options ar p (initial ar) = Inr s"
  shows "list_all (\<lambda>e. \<forall>x. sparseness_of e = Some x \<longrightarrow> x = y) (trace s)"
  using parse_options_Inr [OF assms] by auto

lemma sparse_connection_built:
  assumes "parse_options ar p (initial ar) = Inr s" and "passes_fan_in ar s"
  shows "New_SparseConnection Poisson Poneurons (winit s) (derived_sparseness ar s) \<in>
     set (snd (main ar w p))"
proof -
  have "New_SparseConnection Poisson Poneurons (winit s) (derived_sparseness ar s) \<in>
      set (build_events ar w s)"
    by (simp add: build_events_def neuron_events_def)
  with main_cases [OF assms(1), of w] assms(2) show ?thesis
    by auto
qed

text \<open>
  Claim C2. When the fan-in is given on the command line as \<open>n\<close> and the input
  population is not empty, the derived sparseness is the quotient of \<open>n\<close> by the
  number of inputs in \<open>float\<close> arithmetic: both are converted to \<open>float\<close> and the
  quotient is rounded to \<open>float\<close>. Every event that carries a sparseness (the printed
  line and each connection) carries this value, and a run that passes the fan-in check
  builds the non-plastic connection with it. Where the two conversions are exact, as
  they are for integers a \<open>float\<close> holds, it is the exact quotient rounded once; where
  the fan-in equals the number of inputs, it is exactly 1. In general, if each of the
  three roundings has a relative error of at most \<open>u\<close>, the sparseness is the exact
  quotient up to a relative error of \<open>(3u + u\<^sup>2) / (1 - u)\<close>.
\<close>

theorem derived_sparseness_is_fan_in_over_inputs:
  assumes "\<not> opt_help vm" and "opt_npostsyn vm = Some n"
    and "s = assign_options ar vm (initial ar)"
    and "fl ar (real (unat (nbinputs s))) \<noteq> 0"
  shows "derived_sparseness ar s =
           Fin (fl ar (fl ar (real_of_int (sint n)) / fl ar (real (unat (nbinputs s))))) \<and>
         (\<forall>e \<in> set (snd (main ar w (Parsed vm))).
            \<forall>x. sparseness_of e = Some x \<longrightarrow> x = derived_sparseness ar s) \<and>
         (passes_fan_in ar s \<longrightarrow>
            New_SparseConnection Poisson Poneurons (winit s) (derived_sparseness ar s) \<in>
              set (snd (main ar w (Parsed vm)))) \<and>
         (fl ar (real_of_int (sint n)) = real_of_int (sint n) \<and>
          fl ar (real (unat (nbinputs s))) = real (unat (nbinputs s)) \<longrightarrow>
            derived_sparseness ar s =
              Fin (fl ar (real_of_int (sint n) / real (unat (nbinputs s))))) \<and>
         (sint n = int (unat (nbinputs s)) \<and>
          fl ar (real (unat (nbinputs s))) = real (unat (nbinputs s)) \<and> fl ar 1 = 1 \<longrightarrow>
            derived_sparseness ar s = Fin 1) \<and>
         (0 \<le> u \<and> u < 1 \<and> nbinputs s \<noteq> 0 \<and>
          sparseness_roundings_within u ar (real_of_int (sint n)) (real (unat (nbinputs s))) \<longrightarrow>
            (\<exists>x. derived_sparseness ar s = Fin x \<and>
                 rel_err ((3 * u + u\<^sup>2) / (1 - u))
                   (real_of_int (sint n) / real (unat (nbinputs s))) x))"
proof -
  have p: "parse_options ar (Parsed vm) (initial ar) = Inr s"
    using assms(1,3) by (simp add: parse_no_help)
  have n: "npostsyn s = fl ar (real_of_int (sint n))"
    using assms(2,3) by (simp add: npostsyn_assign_options)
  have d: "derived_sparseness ar s =
      Fin (fl ar (fl ar (real_of_int (sint n)) / fl ar (real (unat (nbinputs s)))))"
    using assms(4) by (simp add: derived_sparseness_def fp_div_def nbinputs_as_float_def n)
  have "list_all (\<lambda>e. \<forall>x. sparseness_of e = Some x \<longrightarrow> x = derived_sparseness ar s)
      (snd (main ar w (Parsed vm)))"
    using main_cases [OF p, of w] sparseness_in_parsed [OF p, of "derived_sparseness ar s"]
      sparseness_in_build [of ar s w] sparseness_in_monitors [of "derived_sparseness ar s" ar w s]
      sparseness_in_run [of "derived_sparseness ar s" w s]
    by auto
  then have a: "\<forall>e \<in> set (snd (main ar w (Parsed vm))).
      \<forall>x. sparseness_of e = Some x \<longrightarrow> x = derived_sparseness ar s"
    by (simp add: list_all_iff)
  have b: "passes_fan_in ar s \<longrightarrow>
      New_SparseConnection Poisson Poneurons (winit s) (derived_sparseness ar s) \<in>
        set (snd (main ar w (Parsed vm)))"
    using sparse_connection_built [OF p] by simp
  have e: "fl ar (real_of_int (sint n)) = real_of_int (sint n) \<and>
      fl ar (real (unat (nbinputs s))) = real (unat (nbinputs s)) \<longrightarrow>
      derived_sparseness ar s = Fin (fl ar (real_of_int (sint n) / real (unat (nbinputs s))))"
    using d by simp
  have o: "sint n = int (unat (nbinputs s)) \<and>
      fl ar (real (unat (nbinputs s))) = real (unat (nbinputs s)) \<and> fl ar 1 = 1 \<longrightarrow>
      derived_sparseness ar s = Fin 1"
  proof (intro impI, elim conjE)
    assume q: "sint n = int (unat (nbinputs s))"
      and r: "fl ar (real (unat (nbinputs s))) = real (unat (nbinputs s))"
      and i: "fl ar 1 = 1"
    from q have "real_of_int (sint n) = real (unat (nbinputs s))"
      by simp
    with d r i assms(4) show "derived_sparseness ar s = Fin 1"
      by simp
  qed
  have r: "0 \<le> u \<and> u < 1 \<and> nbinputs s \<noteq> 0 \<and>
      sparseness_roundings_within u ar (real_of_int (sint n)) (real (unat (nbinputs s))) \<longrightarrow>
      (\<exists>x. derived_sparseness ar s = Fin x \<and>
           rel_err ((3 * u + u\<^sup>2) / (1 - u))
             (real_of_int (sint n) / real (unat (nbinputs s))) x)"
  proof (intro impI, elim conjE)
    assume u: "0 \<le> u" "u < 1" and z: "nbinputs s \<noteq> 0"
      and w: "sparseness_roundings_within u ar (real_of_int (sint n))
        (real (unat (nbinputs s)))"
    from z have "0 < unat (nbinputs s)"
      by (simp add: unat_gt_0)
    then have "0 < real (unat (nbinputs s))"
      by (simp only: of_nat_0_less_iff)
    then have pos: "0 < real (unat (nbinputs s))" .
    from w have w1: "rel_err u (real_of_int (sint n)) (fl ar (real_of_int (sint n)))"
      and w2: "rel_err u (real (unat (nbinputs s))) (fl ar (real (unat (nbinputs s))))"
      and w3: "rel_err u (fl ar (real_of_int (sint n)) / fl ar (real (unat (nbinputs s))))
        (fl ar (fl ar (real_of_int (sint n)) / fl ar (real (unat (nbinputs s)))))"
      unfolding sparseness_roundings_within_def by blast+
    have "rel_err ((3 * u + u\<^sup>2) / (1 - u))
        (real_of_int (sint n) / real (unat (nbinputs s)))
        (fl ar (fl ar (real_of_int (sint n)) / fl ar (real (unat (nbinputs s)))))"
      by (rule quotient_rel_err [OF u pos w1 w2 w3])
    with d show "\<exists>x. derived_sparseness ar s = Fin x \<and>
        rel_err ((3 * u + u\<^sup>2) / (1 - u))
          (real_of_int (sint n) / real (unat (nbinputs s))) x"
      by simp
  qed
  from d a b e o r show ?thesis
    by blast
qed

text \<open>The scenario of the spec: 100 inputs, 25 neurons, a fan-in of 100. The sparseness
  printed and given to the connection is 1. Arithmetic without rounding meets the bound on
  the roundings with \<open>u = 0\<close>.\<close>

theorem sparseness_of_100_over_100:
  "New_SparseConnection Poisson Poneurons (2 / 100) (Fin 1) \<in>
     set (snd (main exact (single_rank True 0 0 0)
       (Parsed (no_options\<lparr>opt_nbinputs := Some 100, opt_size := Some 25,
          opt_npostsyn := Some 100\<rparr>)))) \<and>
   Cerr (Sparseness_is (Fin 1)) \<in>
     set (snd (main exact (single_rank True 0 0 0)
       (Parsed (no_options\<lparr>opt_nbinputs := Some 100, opt_size := Some 25,
          opt_npostsyn := Some 100\<rparr>)))) \<and>
   sparseness_roundings_within 0 exact 100 100"
proof -
  have k: "sparseness_roundings_within 0 exact 100 100"
    by (simp add: sparseness_roundings_within_def rel_err_def exact_def)
  let ?vm = "no_options\<lparr>opt_nbinputs := Some 100, opt_size := Some 25, opt_npostsyn := Some 100\<rparr>"
  let ?w = "single_rank True 0 0 0"
  let ?s = "assign_options exact ?vm (initial exact)"
  have h: "\<not> opt_help ?vm" "opt_npostsyn ?vm = Some 100"
    by (simp_all add: no_options_def)
  have v: "nbinputs ?s = 100" "winit ?s = 2 / 100" "fl exact = (\<lambda>x. x)"
    by (simp_all add: option_defs)
  have z: "fl exact (real (unat (nbinputs ?s))) \<noteq> 0"
    by (simp add: v)
  have c: "passes_fan_in exact ?s" "passes_index_checks ?s"
    by (simp_all add: option_defs)
  have p: "parse_options exact (Parsed ?vm) (initial exact) = Inr ?s"
    by (simp add: parse_no_help h)
  have m: "snd (main exact ?w (Parsed ?vm)) =
      trace ?s @ build_events exact ?w ?s @ monitor_events exact ?w ?s @ run_events ?w ?s"
    by (simp add: main_completed [OF p c])
  have r: "mpi_rank ?w = 0"
    by (simp add: mpi_rank_def single_rank_def)
  from derived_sparseness_is_fan_in_over_inputs [OF h refl z, of ?w]
  have d: "derived_sparseness exact ?s = Fin 1"
    by (simp add: v)
  show ?thesis
    unfolding m by (simp add: build_events_def init_events_def neuron_events_def d r v k)
qed

section \<open>The pair rule\<close>

lemma stdp_A_formula:
  "tau_pre ar \<noteq> 0 \<Longrightarrow>
   stdp_A ar =
     Fin (db ar (db ar (db ar (- db ar (120 / 100) * tau_post ar) / tau_pre ar) * eta ar))"
  by (simp add: stdp_A_def fp_div_def)

lemma stdp_A_within:
  assumes "0 \<le> u" and "tau_pre ar \<noteq> 0" and "stdp_roundings_within u ar"
  shows "\<exists>a. stdp_A ar = Fin a \<and> rel_err ((1 + u) ^ 5 - 1) (- 12 / 10000) a"
proof -
  have t: "tau_post ar = tau_pre ar"
    by (simp add: tau_post_def tau_pre_def)
  have a: "stdp_A ar = Fin (db ar (stdp_quotient ar * eta ar))"
    using assms(2) by (simp add: stdp_A_def fp_div_def stdp_quotient_def stdp_product_def)
  from assms(3)
  have l: "rel_err u (120 / 100) (db ar (120 / 100))"
    and e: "rel_err u (1 / 1000) (eta ar)"
    and p: "rel_err u (- db ar (120 / 100) * tau_pre ar) (stdp_product ar)"
    and q: "rel_err u (stdp_product ar / tau_pre ar) (stdp_quotient ar)"
    and r: "rel_err u (stdp_quotient ar * eta ar) (db ar (stdp_quotient ar * eta ar))"
    unfolding stdp_roundings_within_def t by blast+
  have "rel_err ((1 + u) ^ 5 - 1) (- 12 / 10000) (db ar (stdp_quotient ar * eta ar))"
    by (rule five_roundings [OF assms(1,2) l e p q r])
  with a show ?thesis
    by simp
qed

lemma stdp_A_exact: "stdp_A exact = Fin (- 12 / 10000)"
  by (simp add: stdp_A_def fp_div_def tau_pre_def tau_post_def eta_def exact_def)

lemma pair_rule_block:
  assumes "with_stdp s"
  shows "build_events ar w s =
     (init_events ar w s @ neuron_events ar s) @
     [New_STDPConnection Poisson Poneurons (winit s) (derived_sparseness ar s)
        (tau_pre ar) (tau_post ar),
      Set_A StdpCon (stdp_A ar), Set_B StdpCon (eta ar),
      Set_min_weight StdpCon 0, Set_max_weight StdpCon 1] @ bcpnn_events ar s"
  using assms by (simp add: build_events_def stdp_events_def)

lemma pair_rule_only_in_build:
  "list_all (\<lambda>e. (\<forall>c a. e = Set_A c a \<longrightarrow> c = StdpCon \<and> a = stdp_A ar) \<and>
                 (\<forall>c b. e = Set_B c b \<longrightarrow> c = StdpCon \<and> b = eta ar) \<and>
                 (\<forall>c x. e = Set_min_weight c x \<longrightarrow> c = StdpCon \<and> x = 0) \<and>
                 (\<forall>c x. e = Set_max_weight c x \<longrightarrow> c = StdpCon \<and> x = 1))
     (build_events ar w s)"
  by (simp add: event_defs)

lemma pair_rule_not_in_monitors:
  "list_all (\<lambda>e. (\<forall>c a. e \<noteq> Set_A c a) \<and> (\<forall>c b. e \<noteq> Set_B c b) \<and>
                 (\<forall>c x. e \<noteq> Set_min_weight c x) \<and> (\<forall>c x. e \<noteq> Set_max_weight c x))
     (monitor_events ar w s)"
  by (simp add: event_defs)

lemma pair_rule_not_in_run:
  "list_all (\<lambda>e. (\<forall>c a. e \<noteq> Set_A c a) \<and> (\<forall>c b. e \<noteq> Set_B c b) \<and>
                 (\<forall>c x. e \<noteq> Set_min_weight c x) \<and> (\<forall>c x. e \<noteq> Set_max_weight c x))
     (run_events w s)"
  by (simp add: event_defs)

lemma pair_rule_not_in_parsed:
  assumes "parse_options ar p (initial ar) = Inr s"
  shows "list_all (\<lambda>e. (\<forall>c a. e \<noteq> Set_A c a) \<and> (\<forall>c b. e \<noteq> Set_B c b) \<and>
                 (\<forall>c x. e \<noteq> Set_min_weight c x) \<and> (\<forall>c x. e \<noteq> Set_max_weight c x))
     (trace s)"
  using parse_options_Inr [OF assms] by auto

lemma pair_rule_only_as_configured:
  assumes "parse_options ar p (initial ar) = Inr s"
  shows "list_all (\<lambda>e. (\<forall>c a. e = Set_A c a \<longrightarrow> c = StdpCon \<and> a = stdp_A ar) \<and>
                 (\<forall>c b. e = Set_B c b \<longrightarrow> c = StdpCon \<and> b = eta ar) \<and>
                 (\<forall>c x. e = Set_min_weight c x \<longrightarrow> c = StdpCon \<and> x = 0) \<and>
                 (\<forall>c x. e = Set_max_weight c x \<longrightarrow> c = StdpCon \<and> x = 1))
     (snd (main ar w p))"
    (is "list_all ?P _")
proof -
  let ?N = "\<lambda>e. (\<forall>c a. e \<noteq> Set_A c a) \<and> (\<forall>c b. e \<noteq> Set_B c b) \<and>
                 (\<forall>c x. e \<noteq> Set_min_weight c x) \<and> (\<forall>c x. e \<noteq> Set_max_weight c x)"
  have i: "list_all ?P xs" if "list_all ?N xs" for xs :: "event list"
    using that by (induction xs) simp_all
  have t: "list_all ?P (trace s)"
    by (rule i) (rule pair_rule_not_in_parsed [OF assms])
  have m: "list_all ?P (monitor_events ar w s)"
    by (rule i) (rule pair_rule_not_in_monitors)
  have r: "list_all ?P (run_events w s)"
    by (rule i) (rule pair_rule_not_in_run)
  have b: "list_all ?P (build_events ar w s)"
    by (rule pair_rule_only_in_build)
  have l: "list_all ?P [Cerr x]" "list_all ?P [Logger_msg y]" for x y
    by simp_all
  from main_cases [OF assms, of w]
  consider "snd (main ar w p) = trace s @ [Cerr Fan_in_error]"
    | y where "snd (main ar w p) = trace s @ build_events ar w s @ [Logger_msg y]"
    | "snd (main ar w p) =
        trace s @ build_events ar w s @ monitor_events ar w s @ run_events w s"
    by fastforce
  then show ?thesis
  proof cases
    case 1
    show ?thesis
      unfolding 1 list_all_append using t l by blast
  next
    case 2
    show ?thesis
      unfolding 2 list_all_append using t b l by blast
  next
    case 3
    show ?thesis
      unfolding 3 list_all_append using t b m r by blast
  qed
qed

lemma main_built:
  assumes "parse_options ar p (initial ar) = Inr s" and "passes_fan_in ar s"
  shows "\<exists>rest. snd (main ar w p) = trace s @ build_events ar w s @ rest"
proof (cases "passes_index_checks s")
  case True
  show ?thesis
    by (simp add: main_completed [OF assms True])
next
  case False
  then have "\<not> nomon s" and "nbinputs s < ipre s \<or> size' s < ipost s"
    by (auto simp add: passes_index_checks_def)
  with assms show ?thesis
    by (cases "nbinputs s < ipre s")
       (simp_all add: main_after_parsing after_parsing_abort_ipre after_parsing_abort_ipost)
qed

text \<open>
  Claim C3. When the pair rule is selected, a run that passes the fan-in check builds
  the STDP connection and sets on it, in this order, \<open>A\<close> to the value of
  \<open>-1.20*tau_post/tau_pre*eta\<close> computed in \<open>double\<close>, \<open>B\<close> to \<open>eta\<close>, the minimum weight
  to 0 and the maximum weight to 1; nothing else sets a coefficient or a bound. The time
  constants are both 0.02 rounded to \<open>double\<close> and \<open>eta\<close> is 0.001 rounded to \<open>double\<close>; in
  arithmetic without rounding, \<open>A\<close> is -0.0012 and \<open>B\<close> is 0.001. With rounding, if each
  of the five roundings on the way to \<open>A\<close> has a relative error of at most \<open>u\<close>, then
  \<open>A\<close> is -0.0012 up to a relative error of \<open>(1 + u)\<^sup>5 - 1\<close>.
\<close>

theorem pair_rule_coefficients:
  assumes "parse_options ar p (initial ar) = Inr s"
    and "with_stdp s" and "passes_fan_in ar s"
  shows "(\<exists>before after. snd (main ar w p) =
            before @
            [New_STDPConnection Poisson Poneurons (winit s) (derived_sparseness ar s)
               (tau_pre ar) (tau_post ar),
             Set_A StdpCon (stdp_A ar), Set_B StdpCon (eta ar),
             Set_min_weight StdpCon 0, Set_max_weight StdpCon 1] @ after) \<and>
         (tau_pre ar \<noteq> 0 \<longrightarrow>
            stdp_A ar =
              Fin (db ar (db ar (db ar (- db ar (120 / 100) * tau_post ar) / tau_pre ar) *
                eta ar))) \<and>
         tau_pre ar = db ar (20 / 1000) \<and> tau_post ar = db ar (20 / 1000) \<and>
         eta ar = db ar (1 / 1000) \<and>
         stdp_A exact = Fin (- 12 / 10000) \<and> eta exact = 1 / 1000 \<and>
         (0 \<le> u \<and> tau_pre ar \<noteq> 0 \<and> stdp_roundings_within u ar \<longrightarrow>
            (\<exists>a. stdp_A ar = Fin a \<and> rel_err ((1 + u) ^ 5 - 1) (- 12 / 10000) a)) \<and>
         (\<forall>c a. Set_A c a \<in> set (snd (main ar w p)) \<longrightarrow> c = StdpCon \<and> a = stdp_A ar) \<and>
         (\<forall>c b. Set_B c b \<in> set (snd (main ar w p)) \<longrightarrow> c = StdpCon \<and> b = eta ar) \<and>
         (\<forall>c x. Set_min_weight c x \<in> set (snd (main ar w p)) \<longrightarrow> c = StdpCon \<and> x = 0) \<and>
         (\<forall>c x. Set_max_weight c x \<in> set (snd (main ar w p)) \<longrightarrow> c = StdpCon \<and> x = 1)"
proof (intro conjI)
  let ?block = "[New_STDPConnection Poisson Poneurons (winit s) (derived_sparseness ar s)
               (tau_pre ar) (tau_post ar),
             Set_A StdpCon (stdp_A ar), Set_B StdpCon (eta ar),
             Set_min_weight StdpCon 0, Set_max_weight StdpCon 1]"
  from main_built [OF assms(1,3), of w]
  obtain rest where "snd (main ar w p) = trace s @ build_events ar w s @ rest" ..
  then have "snd (main ar w p) =
      (trace s @ init_events ar w s @ neuron_events ar s) @ ?block @ (bcpnn_events ar s @ rest)"
    by (simp add: pair_rule_block [OF assms(2)])
  then show "\<exists>before after. snd (main ar w p) = before @ ?block @ after"
    by (intro exI)
  show "tau_pre ar \<noteq> 0 \<longrightarrow>
      stdp_A ar =
        Fin (db ar (db ar (db ar (- db ar (120 / 100) * tau_post ar) / tau_pre ar) * eta ar))"
    by (simp add: stdp_A_formula)
  show "tau_pre ar = db ar (20 / 1000)" "tau_post ar = db ar (20 / 1000)"
    "eta ar = db ar (1 / 1000)"
    by (simp_all add: tau_pre_def tau_post_def eta_def)
  show "stdp_A exact = Fin (- 12 / 10000)"
    by (rule stdp_A_exact)
  show "eta exact = 1 / 1000"
    by (simp add: eta_def exact_def)
  show "0 \<le> u \<and> tau_pre ar \<noteq> 0 \<and> stdp_roundings_within u ar \<longrightarrow>
      (\<exists>a. stdp_A ar = Fin a \<and> rel_err ((1 + u) ^ 5 - 1) (- 12 / 10000) a)"
    using stdp_A_within by blast
  note u = pair_rule_only_as_configured [OF assms(1), of w, unfolded list_all_iff, rule_format]
  show "\<forall>c a. Set_A c a \<in> set (snd (main ar w p)) \<longrightarrow> c = StdpCon \<and> a = stdp_A ar"
    using u by blast
  show "\<forall>c b. Set_B c b \<in> set (snd (main ar w p)) \<longrightarrow> c = StdpCon \<and> b = eta ar"
    using u by blast
  show "\<forall>c x. Set_min_weight c x \<in> set (snd (main ar w p)) \<longrightarrow> c = StdpCon \<and> x = 0"
    using u by blast
  show "\<forall>c x. Set_max_weight c x \<in> set (snd (main ar w p)) \<longrightarrow> c = StdpCon \<and> x = 1"
    using u by blast
qed

text \<open>The run with the pair rule selected and nothing else, in arithmetic without
  rounding.\<close>

theorem pair_rule_in_exact_arithmetic:
  "Set_A StdpCon (Fin (- 12 / 10000)) \<in>
     set (snd (main exact (single_rank True 0 0 0) (Parsed (no_options\<lparr>opt_with_stdp := Some True\<rparr>)))) \<and>
   Set_B StdpCon (1 / 1000) \<in>
     set (snd (main exact (single_rank True 0 0 0) (Parsed (no_options\<lparr>opt_with_stdp := Some True\<rparr>)))) \<and>
   Set_min_weight StdpCon 0 \<in>
     set (snd (main exact (single_rank True 0 0 0) (Parsed (no_options\<lparr>opt_with_stdp := Some True\<rparr>)))) \<and>
   Set_max_weight StdpCon 1 \<in>
     set (snd (main exact (single_rank True 0 0 0) (Parsed (no_options\<lparr>opt_with_stdp := Some True\<rparr>)))) \<and>
   tau_pre exact = 2 / 100 \<and> tau_post exact = 2 / 100 \<and> eta exact = 1 / 1000 \<and>
   stdp_roundings_within 0 exact"
proof -
  have k: "stdp_roundings_within 0 exact"
    by (simp add: stdp_roundings_within_def rel_err_def stdp_quotient_def stdp_product_def
        tau_pre_def tau_post_def eta_def exact_def)
  let ?vm = "no_options\<lparr>opt_with_stdp := Some True\<rparr>"
  let ?w = "single_rank True 0 0 0"
  let ?s = "assign_options exact ?vm (initial exact)"
  have p: "parse_options exact (Parsed ?vm) (initial exact) = Inr ?s"
    by (simp add: parse_no_help no_options_def)
  have c: "with_stdp ?s" "passes_fan_in exact ?s"
    by (simp_all add: option_defs)
  from pair_rule_coefficients [OF p c, of ?w]
  obtain before after where
    m: "snd (main exact ?w (Parsed ?vm)) =
      before @
      [New_STDPConnection Poisson Poneurons (winit ?s) (derived_sparseness exact ?s)
         (tau_pre exact) (tau_post exact),
       Set_A StdpCon (stdp_A exact), Set_B StdpCon (eta exact),
       Set_min_weight StdpCon 0, Set_max_weight StdpCon 1] @ after"
    and a: "stdp_A exact = Fin (- 12 / 10000)" and e: "eta exact = 1 / 1000"
    by blast
  have t: "tau_pre exact = 2 / 100" "tau_post exact = 2 / 100"
    by (simp_all add: tau_pre_def tau_post_def exact_def)
  show ?thesis
    unfolding m by (simp add: a e t k)
qed

section \<open>The derived parameters do not depend on the kernel\<close>

lemma derived_in_build:
  "filter derived_parameter (build_events ar w s) =
   filter derived_parameter (build_events ar w' s)"
  by (simp add: event_defs)

lemma derived_in_monitors: "filter derived_parameter (monitor_events ar w s) = []"
  by (simp add: event_defs)

lemma derived_in_run: "filter derived_parameter (run_events w s) = []"
  by (simp add: event_defs)

text \<open>
  Claim C8. The derived parameters of a run (the sparseness given to each connection,
  the coefficients and bounds of the pair rule, the gains of the associative rule) are
  the same in any two runs on the same command line, seed included, and with the same
  arithmetic: they depend neither on the number of ranks, nor on the rank, nor on what
  the kernel answers.
\<close>

theorem derived_parameters_ignore_the_kernel:
  "filter derived_parameter (snd (main ar w p)) =
   filter derived_parameter (snd (main ar w' p))"
proof (cases "parse_options ar p (initial ar)")
  case (Inl h)
  then show ?thesis
    by (simp add: main_def)
next
  case (Inr s)
  show ?thesis
  proof (cases "passes_fan_in ar s")
    case False
    then show ?thesis
      by (simp add: main_after_parsing [OF Inr] after_parsing_exit)
  next
    case fan: True
    show ?thesis
    proof (cases "passes_index_checks s")
      case True
      show ?thesis
        by (simp add: main_completed [OF Inr fan True] derived_in_monitors derived_in_run
            derived_in_build [of ar w s w'])
    next
      case False
      then have n: "\<not> nomon s" and "nbinputs s < ipre s \<or> size' s < ipost s"
        by (auto simp add: passes_index_checks_def)
      then show ?thesis
        using fan
        by (cases "nbinputs s < ipre s")
           (simp_all add: main_after_parsing [OF Inr] after_parsing_abort_ipre
             after_parsing_abort_ipost derived_in_build [of ar w s w'])
    qed
  qed
qed

text \<open>
  The pair rule on one rank with a kernel that succeeds, and on rank 1 of two ranks with
  a kernel that fails: the same derived parameters, here in arithmetic without rounding.
\<close>

theorem pair_rule_parameters_on_two_worlds:
  "filter derived_parameter
     (snd (main exact (single_rank True 2500 2500 0) (Parsed (no_options\<lparr>opt_with_stdp := Some True\<rparr>)))) =
     [New_SparseConnection Poisson Poneurons (2 / 100) (Fin 1),
      New_STDPConnection Poisson Poneurons (2 / 100) (Fin 1) (2 / 100) (2 / 100),
      Set_A StdpCon (Fin (- 12 / 10000)), Set_B StdpCon (1 / 1000),
      Set_min_weight StdpCon 0, Set_max_weight StdpCon 1] \<and>
   filter derived_parameter
     (snd (main exact (rank1_of_two 1200 1300) (Parsed (no_options\<lparr>opt_with_stdp := Some True\<rparr>)))) =
     [New_SparseConnection Poisson Poneurons (2 / 100) (Fin 1),
      New_STDPConnection Poisson Poneurons (2 / 100) (Fin 1) (2 / 100) (2 / 100),
      Set_A StdpCon (Fin (- 12 / 10000)), Set_B StdpCon (1 / 1000),
      Set_min_weight StdpCon 0, Set_max_weight StdpCon 1]"
proof -
  let ?vm = "no_options\<lparr>opt_with_stdp := Some True\<rparr>"
  let ?w = "single_rank True 2500 2500 0"
  let ?s = "assign_options exact ?vm (initial exact)"
  have p: "parse_options exact (Parsed ?vm) (initial exact) = Inr ?s"
    by (simp add: parse_no_help no_options_def)
  have c: "passes_fan_in exact ?s" "passes_index_checks ?s"
    by (simp_all add: option_defs)
  have m: "snd (main exact ?w (Parsed ?vm)) =
      trace ?s @ build_events exact ?w ?s @ monitor_events exact ?w ?s @ run_events ?w ?s"
    by (simp add: main_completed [OF p c])
  have v: "with_stdp ?s" "\<not> with_bcpnn ?s" "winit ?s = 2 / 100" "trace ?s = []"
    "derived_sparseness exact ?s = Fin 1"
    by (simp_all add: option_defs derived_sparseness_def fp_div_def)
  have k: "tau_pre exact = 2 / 100" "tau_post exact = 2 / 100" "eta exact = 1 / 1000"
    by (simp_all add: tau_pre_def tau_post_def eta_def exact_def)
  have one: "filter derived_parameter (snd (main exact ?w (Parsed ?vm))) =
     [New_SparseConnection Poisson Poneurons (2 / 100) (Fin 1),
      New_STDPConnection Poisson Poneurons (2 / 100) (Fin 1) (2 / 100) (2 / 100),
      Set_A StdpCon (Fin (- 12 / 10000)), Set_B StdpCon (1 / 1000),
      Set_min_weight StdpCon 0, Set_max_weight StdpCon 1]"
    unfolding m
    by (simp add: derived_in_monitors derived_in_run v k stdp_A_exact build_events_def
        init_events_def neuron_events_def stdp_events_def bcpnn_events_def)
  from derived_parameters_ignore_the_kernel [of exact "rank1_of_two 1200 1300" "Parsed ?vm" ?w] one
  show ?thesis
    by simp
qed

end
